theory Spec2Isabelle
  imports Complex_Main "HOL-Library.Sublist" "HOL-Library.Log_Nat"
begin

section \<open>Doubles\<close>

text \<open>
  The program under study is \<^verbatim>\<open>compute_quality_flags(df, **kwargs)\<close> of
  \<^verbatim>\<open>eda_cli/core.py\<close>. It reads a pandas DataFrame and a dictionary of keyword
  arguments and returns a dictionary of six flags, a score and a \<^verbatim>\<open>metrics\<close>
  sub-dictionary.

  Python floats and numpy's \<^verbatim>\<open>float64\<close> are IEEE 754 binary64 numbers. A float is NaN or a
  finite number, given by its exact rational value. Every arithmetic operation returns the
  exact result rounded to the nearest number with a significand of 53 bits, ties to the even
  significand (\<open>round64\<close>). The exponent is not bounded: the program's arithmetic stays
  between quotients of two counts and sums below 2, where nothing overflows or underflows.
  A count of rows or columns is below \<open>2 ^ 53\<close> and so is a double as it stands.
  Infinities are left out, because the program divides by zero only in \<^verbatim>\<open>0 / 0\<close> (a count
  over a frame of zero rows), which pandas and numpy evaluate to NaN.
\<close>

datatype float64 = NaN | Finite rat

text \<open>Rounding to the nearest integer, ties to the even one.\<close>

definition round_half_even :: "rat \<Rightarrow> int" where
  "round_half_even m =
     (let f = \<lfloor>m\<rfloor>; d = m - of_int f
      in if d < 1 / 2 then f else if 1 / 2 < d then f + 1 else if even f then f else f + 1)"

text \<open>
  For \<open>x\<close> at least 1, \<open>k\<close> is the number of bits of its integer part, so \<open>x\<close> lies
  between \<open>2 ^ (k - 1)\<close> and \<open>2 ^ k\<close> and is rounded to a multiple of \<open>2 ^ k / 2 ^ 53\<close>.
  For \<open>x\<close> between 0 and 1, \<open>k\<close> is the least number with \<open>1 \<le> x * 2 ^ k\<close>, and
  \<open>x\<close> is rounded to a multiple of \<open>1 / (2 ^ 52 * 2 ^ k)\<close>.
\<close>

definition round_pos :: "rat \<Rightarrow> rat" where
  "round_pos x =
     (if 1 \<le> x
      then (let k = floorlog 2 (nat \<lfloor>x\<rfloor>)
            in of_int (round_half_even (x * 2 ^ 53 / 2 ^ k)) * 2 ^ k / 2 ^ 53)
      else (let k = floorlog 2 (nat (\<lceil>1 / x\<rceil> - 1))
            in of_int (round_half_even (x * (2 ^ 52 * 2 ^ k))) / (2 ^ 52 * 2 ^ k)))"

definition round64 :: "rat \<Rightarrow> rat" where
  "round64 x = (if x = 0 then 0 else if 0 < x then round_pos x else - round_pos (- x))"

fun fadd :: "float64 \<Rightarrow> float64 \<Rightarrow> float64" where
  "fadd (Finite a) (Finite b) = Finite (round64 (a + b))"
| "fadd _ _ = NaN"

fun fsub :: "float64 \<Rightarrow> float64 \<Rightarrow> float64" where
  "fsub (Finite a) (Finite b) = Finite (round64 (a - b))"
| "fsub _ _ = NaN"

fun fmul :: "float64 \<Rightarrow> float64 \<Rightarrow> float64" where
  "fmul (Finite a) (Finite b) = Finite (round64 (a * b))"
| "fmul _ _ = NaN"

text \<open>Every ordered comparison with NaN is false.\<close>

fun fgt :: "float64 \<Rightarrow> float64 \<Rightarrow> bool" where
  "fgt (Finite a) (Finite b) = (a > b)"
| "fgt _ _ = False"

text \<open>
  Python's \<^verbatim>\<open>max(a, b)\<close> returns \<^verbatim>\<open>b\<close> when \<^verbatim>\<open>b > a\<close> and \<^verbatim>\<open>a\<close> otherwise;
  \<^verbatim>\<open>min(a, b)\<close> returns \<^verbatim>\<open>b\<close> when \<^verbatim>\<open>b < a\<close> and \<^verbatim>\<open>a\<close> otherwise.
\<close>

definition py_max :: "float64 \<Rightarrow> float64 \<Rightarrow> float64" where
  "py_max a b = (if fgt b a then b else a)"

definition py_min :: "float64 \<Rightarrow> float64 \<Rightarrow> float64" where
  "py_min a b = (if fgt a b then b else a)"

text \<open>
  A count divided by \<^verbatim>\<open>len(df)\<close>: both are converted to doubles (exactly, below
  \<open>2 ^ 53\<close>) and divided. With zero rows the count is zero as well and the quotient
  \<^verbatim>\<open>0 / 0\<close> is NaN (numpy warns, it does not raise).
\<close>

definition true_div :: "nat \<Rightarrow> nat \<Rightarrow> float64" where
  "true_div c n = (if n = 0 then NaN else Finite (round64 (of_nat c / of_nat n)))"

section \<open>Data model\<close>

text \<open>The values a keyword argument is given in the model: an int, a float, a str or None.\<close>

datatype pyval = PInt int | PFloat float64 | PStr string | PNone

type_synonym kwargs = "string \<rightharpoonup> pyval"

datatype error = TypeError | ValueError | AttributeError | ZeroDivisionError

text \<open>
  A column label is a str (a string of bytes) or not: pandas numbers the columns of a frame
  built without labels 0, 1, 2, ..., so the labels that are not strs are given as ints.

  A cell is \<^verbatim>\<open>None\<close>, a NaN, a number or a text. \<^verbatim>\<open>isnull\<close> and \<^verbatim>\<open>nunique\<close> take
  \<^verbatim>\<open>None\<close> and NaN alike for missing; \<^verbatim>\<open>Series.duplicated\<close> keeps them apart and takes
  each equal to itself. A column has a label, a dtype class and its cells in row order.
  \<^verbatim>\<open>select_dtypes\<close> tells numeric dtypes (\<^verbatim>\<open>np.number\<close>), \<^verbatim>\<open>object\<close> and
  \<^verbatim>\<open>category\<close> apart; every other dtype (bool, datetime, ...) is \<open>Other\<close>.
\<close>

datatype label = Str string | IntLabel int

datatype cell = NoneCell | NaNCell | Num rat | Txt string

datatype dtype = Numeric | Object | Category | Other

record column =
  cname :: label
  cdtype :: dtype
  cvalues :: "cell list"

type_synonym table = "column list"

definition is_missing :: "cell \<Rightarrow> bool" where
  "is_missing v = (v = NoneCell \<or> v = NaNCell)"

definition is_str :: "label \<Rightarrow> bool" where
  "is_str l = (case l of Str _ \<Rightarrow> True | IntLabel _ \<Rightarrow> False)"

text \<open>
  \<^verbatim>\<open>len(df)\<close>: the number of rows. A table is its list of columns, so a table without
  columns has no rows.
\<close>

definition nrows :: "table \<Rightarrow> nat" where
  "nrows df = (case df of [] \<Rightarrow> 0 | c # _ \<Rightarrow> length (cvalues c))"

text \<open>A DataFrame is rectangular: all its columns have \<^verbatim>\<open>len(df)\<close> cells.\<close>

definition rectangular :: "table \<Rightarrow> bool" where
  "rectangular df = list_all (\<lambda>c. length (cvalues c) = nrows df) df"

record metrics =
  missing_shares :: "(label \<times> float64) list"
  duplicate_rows_count :: nat
  constant_columns :: "label list"
  high_cardinality_columns :: "(label \<times> nat) list"
  suspicious_id_columns :: "(label \<times> nat) list"
  many_zero_columns :: "(label \<times> float64) list"

record report =
  has_missing :: bool
  has_duplicate_rows :: bool
  has_constant_column :: bool
  has_high_cardinality_categories :: bool
  has_suspicious_id_duplicates :: bool
  has_many_zero_values :: bool
  quality_score :: float64
  metrics :: metrics

text \<open>
  \<^verbatim>\<open>x > threshold\<close> for a number \<^verbatim>\<open>x\<close> and a keyword value: a str or None on the
  right raises TypeError. A float and an int are compared by their values.
\<close>

fun num_gt :: "float64 \<Rightarrow> pyval \<Rightarrow> error + bool" where
  "num_gt x (PInt t) = Inr (fgt x (Finite (of_int t)))"
| "num_gt x (PFloat t) = Inr (fgt x t)"
| "num_gt x (PStr s) = Inl TypeError"
| "num_gt x PNone = Inl TypeError"

text \<open>\<^verbatim>\<open>kwargs.get(key, default)\<close>.\<close>

definition kwargs_get :: "kwargs \<Rightarrow> string \<Rightarrow> pyval \<Rightarrow> pyval" where
  "kwargs_get kw k d = (case kw k of None \<Rightarrow> d | Some v \<Rightarrow> v)"

section \<open>The pandas operations the program calls\<close>

text \<open>\<^verbatim>\<open>df.isnull().sum()\<close>, per column.\<close>

definition missing_count :: "column \<Rightarrow> nat" where
  "missing_count c = length (filter is_missing (cvalues c))"

text \<open>
  \<^verbatim>\<open>Series.duplicated()\<close> marks every element that equals an earlier one (the first
  occurrence is not marked).
\<close>

fun duplicated_from :: "'a list \<Rightarrow> 'a list \<Rightarrow> bool list" where
  "duplicated_from seen [] = []"
| "duplicated_from seen (x # xs) = (x \<in> set seen) # duplicated_from (x # seen) xs"

definition duplicated :: "'a list \<Rightarrow> bool list" where
  "duplicated xs = duplicated_from [] xs"

definition duplicated_sum :: "'a list \<Rightarrow> nat" where
  "duplicated_sum xs = length (filter (\<lambda>b. b) (duplicated xs))"

definition row_at :: "table \<Rightarrow> nat \<Rightarrow> cell list" where
  "row_at df i = map (\<lambda>c. cvalues c ! i) df"

definition rows :: "table \<Rightarrow> cell list list" where
  "rows df = map (row_at df) [0..<nrows df]"

text \<open>
  \<^verbatim>\<open>DataFrame.duplicated()\<close>, as pandas 1.5 and later compute it: on a frame of one column
  it is \<^verbatim>\<open>Series.duplicated()\<close> of that column; on a frame of several columns every column
  is factorized, which gives all missing cells one code, and the rows of codes are compared.
\<close>

definition merge_missing :: "cell \<Rightarrow> cell" where
  "merge_missing v = (if is_missing v then NaNCell else v)"

definition df_duplicated_sum :: "table \<Rightarrow> nat" where
  "df_duplicated_sum df =
     (case df of
        [] \<Rightarrow> 0
      | [c] \<Rightarrow> duplicated_sum (cvalues c)
      | _ \<Rightarrow> duplicated_sum (map (map merge_missing) (rows df)))"

text \<open>\<^verbatim>\<open>Series.nunique()\<close>: the number of distinct values, missing ones dropped.\<close>

definition nunique :: "column \<Rightarrow> nat" where
  "nunique c = length (remdups (filter (\<lambda>v. \<not> is_missing v) (cvalues c)))"

text \<open>\<^verbatim>\<open>Series.max()\<close> skips NaN; it is NaN when nothing is left.\<close>

definition series_max :: "float64 list \<Rightarrow> float64" where
  "series_max xs =
     (case concat (map (\<lambda>x. case x of NaN \<Rightarrow> [] | Finite q \<Rightarrow> [q]) xs) of
        [] \<Rightarrow> NaN
      | q # qs \<Rightarrow> Finite (fold max qs q))"

text \<open>\<^verbatim>\<open>str.lower()\<close> on the ASCII letters.\<close>

definition char_lower :: "char \<Rightarrow> char" where
  "char_lower c =
     (let n = (of_char c :: nat) in if 65 \<le> n \<and> n \<le> 90 then char_of (n + 32) else c)"

definition lower :: "string \<Rightarrow> string" where
  "lower s = map char_lower s"

section \<open>The six checks\<close>

text \<open>
  Check 3. \<^verbatim>\<open>df[col]\<close> is a Series when the label \<^verbatim>\<open>col\<close> is unique. With a repeated
  label it is a DataFrame, \<^verbatim>\<open>nunique()\<close> is then a Series, and its truth value in the
  \<^verbatim>\<open>if\<close> raises ValueError. The loop visits every label, so it raises exactly when the
  labels are not distinct.
\<close>

definition constant_columns_of :: "table \<Rightarrow> error + label list" where
  "constant_columns_of df =
     (if \<not> distinct (map cname df) then Inl ValueError
      else Inr (map cname (filter (\<lambda>c. nunique c = 1) df)))"

text \<open>Check 4: the loop over \<^verbatim>\<open>df.select_dtypes(include=['object', 'category']).columns\<close>.\<close>

definition is_categorical :: "column \<Rightarrow> bool" where
  "is_categorical c = (cdtype c = Object \<or> cdtype c = Category)"

fun high_cardinality_loop :: "pyval \<Rightarrow> column list \<Rightarrow> error + (label \<times> nat) list" where
  "high_cardinality_loop th [] = Inr []"
| "high_cardinality_loop th (c # cs) =
     (case num_gt (Finite (of_nat (nunique c))) th of
        Inl e \<Rightarrow> Inl e
      | Inr b \<Rightarrow>
          (case high_cardinality_loop th cs of
             Inl e \<Rightarrow> Inl e
           | Inr r \<Rightarrow> Inr (if b then (cname c, nunique c) # r else r)))"

text \<open>
  Check 5. The comprehension \<^verbatim>\<open>[col for col in df.columns if 'id' in col.lower()]\<close> calls
  \<^verbatim>\<open>lower\<close> on every label, in column order; a label that is not a str has no such
  method, and the call raises AttributeError. The loop over the columns found appends a
  column only when its count of repeated values is positive.
\<close>

fun id_columns_of :: "column list \<Rightarrow> error + column list" where
  "id_columns_of [] = Inr []"
| "id_columns_of (c # cs) =
     (case cname c of
        IntLabel _ \<Rightarrow> Inl AttributeError
      | Str s \<Rightarrow>
          (case id_columns_of cs of
             Inl e \<Rightarrow> Inl e
           | Inr r \<Rightarrow> Inr (if sublist ''id'' (lower s) then c # r else r)))"

definition suspicious_id_cols_of :: "column list \<Rightarrow> (label \<times> nat) list" where
  "suspicious_id_cols_of id_columns =
     map (\<lambda>c. (cname c, duplicated_sum (cvalues c)))
       (filter (\<lambda>c. duplicated_sum (cvalues c) > 0) id_columns)"

text \<open>Check 6: the loop over \<^verbatim>\<open>df.select_dtypes(include=[np.number]).columns\<close>.\<close>

definition zero_count :: "column \<Rightarrow> nat" where
  "zero_count c = length (filter (\<lambda>v. v = Num 0) (cvalues c))"

fun many_zero_loop :: "pyval \<Rightarrow> nat \<Rightarrow> column list \<Rightarrow> error + (label \<times> float64) list" where
  "many_zero_loop th n [] = Inr []"
| "many_zero_loop th n (c # cs) =
     (let zero_share = true_div (zero_count c) n in
      case num_gt zero_share th of
        Inl e \<Rightarrow> Inl e
      | Inr b \<Rightarrow>
          (case many_zero_loop th n cs of
             Inl e \<Rightarrow> Inl e
           | Inr r \<Rightarrow> Inr (if b then (cname c, zero_share) # r else r)))"

section \<open>The score\<close>

text \<open>
  The penalty accumulator of lines 89 to 110. A literal such as \<^verbatim>\<open>0.3\<close> is the double
  nearest to it. \<^verbatim>\<open>0.1 * len(constant_columns) / len(df.columns)\<close> multiplies first and
  divides the rounded product; the division of a float by the int zero raises
  ZeroDivisionError.
\<close>

definition penalty_of ::
  "table \<Rightarrow> bool \<Rightarrow> bool \<Rightarrow> bool \<Rightarrow> bool \<Rightarrow> bool \<Rightarrow> bool \<Rightarrow>
   float64 list \<Rightarrow> nat \<Rightarrow> label list \<Rightarrow> error + float64" where
  "penalty_of df f_missing f_dup f_const f_card f_id f_zero shares duplicate_count constant_cols =
     (let p0 = Finite 0;
          p1 = (if f_missing
                then fadd p0 (fmul (series_max shares) (Finite (round64 (3 / 10))))
                else p0);
          p2 = (if f_dup
                then fadd p1 (py_min (fmul (true_div duplicate_count (nrows df)) (Finite (1 / 2)))
                                     (Finite (round64 (2 / 10))))
                else p1)
      in if f_const \<and> length df = 0 then Inl ZeroDivisionError
         else
           (let p3 = (if f_const
                      then fadd p2
                             (Finite (round64
                                (round64 (round64 (1 / 10) * of_nat (length constant_cols))
                                 / of_nat (length df))))
                      else p2);
                p4 = (if f_card then fadd p3 (Finite (round64 (15 / 100))) else p3);
                p5 = (if f_id then fadd p4 (Finite (round64 (2 / 10))) else p4);
                p6 = (if f_zero then fadd p5 (Finite (round64 (1 / 10))) else p5)
            in Inr p6))"

section \<open>\<^verbatim>\<open>compute_quality_flags\<close>\<close>

definition compute_quality_flags :: "table \<Rightarrow> kwargs \<Rightarrow> error + report" where
  "compute_quality_flags df kw =
     (let missing_counts = map missing_count df;
          shares = map (\<lambda>c. true_div (missing_count c) (nrows df)) df;
          f_missing = list_ex (\<lambda>k. k \<noteq> 0) missing_counts;
          duplicate_count = df_duplicated_sum df;
          f_dup = (duplicate_count > 0)
      in case constant_columns_of df of
           Inl e \<Rightarrow> Inl e
         | Inr constant_cols \<Rightarrow>
             (let f_const = (length constant_cols > 0);
                  high_cardinality_threshold =
                    kwargs_get kw ''high_cardinality_threshold'' (PInt 100)
              in case high_cardinality_loop high_cardinality_threshold (filter is_categorical df) of
                   Inl e \<Rightarrow> Inl e
                 | Inr high_cardinality_cols \<Rightarrow>
                     (let f_card = (length high_cardinality_cols > 0)
                      in case id_columns_of df of
                           Inl e \<Rightarrow> Inl e
                         | Inr id_columns \<Rightarrow>
                             (let suspicious_id_cols = suspicious_id_cols_of id_columns;
                                  f_id = (length suspicious_id_cols > 0);
                                  zero_threshold =
                                    kwargs_get kw ''zero_threshold'' (PFloat (Finite (1 / 2)))
                              in case many_zero_loop zero_threshold (nrows df)
                                        (filter (\<lambda>c. cdtype c = Numeric) df) of
                                   Inl e \<Rightarrow> Inl e
                                 | Inr many_zero_cols \<Rightarrow>
                                     (let f_zero = (length many_zero_cols > 0)
                                      in case penalty_of df f_missing f_dup f_const f_card f_id
                                                f_zero shares duplicate_count constant_cols of
                                           Inl e \<Rightarrow> Inl e
                                         | Inr penalty \<Rightarrow>
                                             Inr \<lparr> has_missing = f_missing,
                                                   has_duplicate_rows = f_dup,
                                                   has_constant_column = f_const,
                                                   has_high_cardinality_categories = f_card,
                                                   has_suspicious_id_duplicates = f_id,
                                                   has_many_zero_values = f_zero,
                                                   quality_score =
                                                     py_max (Finite 0) (fsub (Finite 1) penalty),
                                                   metrics =
                                                     \<lparr> missing_shares = zip (map cname df) shares,
                                                       duplicate_rows_count = duplicate_count,
                                                       constant_columns = constant_cols,
                                                       high_cardinality_columns =
                                                         high_cardinality_cols,
                                                       suspicious_id_columns = suspicious_id_cols,
                                                       many_zero_columns = many_zero_cols \<rparr> \<rparr>)))))"

section \<open>The call as a state transformer on the caller's table\<close>

text \<open>
  The body never assigns into \<^verbatim>\<open>df\<close>. It touches the table only through
  \<^verbatim>\<open>df.isnull().sum()\<close>, \<^verbatim>\<open>len(df)\<close>, \<^verbatim>\<open>df.duplicated().sum()\<close>,
  \<^verbatim>\<open>df.columns\<close>, \<^verbatim>\<open>df[col].nunique()\<close>, \<^verbatim>\<open>df.select_dtypes(...)\<close>,
  \<^verbatim>\<open>df[col].duplicated().sum()\<close> and \<^verbatim>\<open>(df[col] == 0).sum()\<close>: each builds a new object
  from its receiver. Below, every such operation takes the table and returns its result together
  with the table after the call, and \<open>compute_quality_flags_st\<close> threads the table through
  the statements of the body in their order; \<open>df0\<close>, \<open>df1\<close>, ... are the table after
  each of them.
\<close>

definition st_isnull_sum :: "table \<Rightarrow> nat list \<times> table" where
  "st_isnull_sum df = (map missing_count df, df)"

definition st_len :: "table \<Rightarrow> nat \<times> table" where
  "st_len df = (nrows df, df)"

definition st_column_labels :: "table \<Rightarrow> label list \<times> table" where
  "st_column_labels df = (map cname df, df)"

definition st_duplicated_sum :: "table \<Rightarrow> nat \<times> table" where
  "st_duplicated_sum df = (df_duplicated_sum df, df)"

text \<open>The loop of check 3, the comprehension of check 5 and the loop of check 5.\<close>

definition st_constant_columns :: "table \<Rightarrow> (error + label list) \<times> table" where
  "st_constant_columns df = (constant_columns_of df, df)"

definition st_id_columns :: "table \<Rightarrow> (error + column list) \<times> table" where
  "st_id_columns df = (id_columns_of df, df)"

definition st_suspicious_id_cols :: "column list \<Rightarrow> table \<Rightarrow> (label \<times> nat) list \<times> table" where
  "st_suspicious_id_cols id_columns df = (suspicious_id_cols_of id_columns, df)"

text \<open>\<^verbatim>\<open>select_dtypes\<close> returns a new frame of the selected columns.\<close>

definition st_select_dtypes :: "(column \<Rightarrow> bool) \<Rightarrow> table \<Rightarrow> table \<times> table" where
  "st_select_dtypes P df = (filter P df, df)"

text \<open>The penalty accumulator reads \<^verbatim>\<open>len(df)\<close> and \<^verbatim>\<open>len(df.columns)\<close>.\<close>

definition st_penalty ::
  "bool \<Rightarrow> bool \<Rightarrow> bool \<Rightarrow> bool \<Rightarrow> bool \<Rightarrow> bool \<Rightarrow> float64 list \<Rightarrow> nat \<Rightarrow> label list \<Rightarrow>
   table \<Rightarrow> (error + float64) \<times> table" where
  "st_penalty f_missing f_dup f_const f_card f_id f_zero shares duplicate_count constant_cols df =
     (penalty_of df f_missing f_dup f_const f_card f_id f_zero shares duplicate_count
        constant_cols, df)"

definition compute_quality_flags_st :: "kwargs \<Rightarrow> table \<Rightarrow> (error + report) \<times> table" where
  "compute_quality_flags_st kw df0 =
     (let (missing_counts, df1) = st_isnull_sum df0;
          (n, df2) = st_len df1;
          shares = map (\<lambda>k. true_div k n) missing_counts;
          (labels, df3) = st_column_labels df2;
          f_missing = list_ex (\<lambda>k. k \<noteq> 0) missing_counts;
          (duplicate_count, df4) = st_duplicated_sum df3;
          f_dup = (duplicate_count > 0);
          (cc, df5) = st_constant_columns df4
      in case cc of
           Inl e \<Rightarrow> (Inl e, df5)
         | Inr constant_cols \<Rightarrow>
             (let f_const = (length constant_cols > 0);
                  high_cardinality_threshold =
                    kwargs_get kw ''high_cardinality_threshold'' (PInt 100);
                  (categorical, df6) = st_select_dtypes is_categorical df5
              in case high_cardinality_loop high_cardinality_threshold categorical of
                   Inl e \<Rightarrow> (Inl e, df6)
                 | Inr high_cardinality_cols \<Rightarrow>
                     (let f_card = (length high_cardinality_cols > 0);
                          (ids, df7) = st_id_columns df6
                      in case ids of
                           Inl e \<Rightarrow> (Inl e, df7)
                         | Inr id_columns \<Rightarrow>
                             (let (suspicious_id_cols, df8) = st_suspicious_id_cols id_columns df7;
                                  f_id = (length suspicious_id_cols > 0);
                                  zero_threshold =
                                    kwargs_get kw ''zero_threshold'' (PFloat (Finite (1 / 2)));
                                  (numeric, df9) =
                                    st_select_dtypes (\<lambda>c. cdtype c = Numeric) df8;
                                  (n', df10) = st_len df9
                              in case many_zero_loop zero_threshold n' numeric of
                                   Inl e \<Rightarrow> (Inl e, df10)
                                 | Inr many_zero_cols \<Rightarrow>
                                     (let f_zero = (length many_zero_cols > 0);
                                          (p, df11) = st_penalty f_missing f_dup f_const f_card
                                             f_id f_zero shares duplicate_count constant_cols df10
                                      in case p of
                                           Inl e \<Rightarrow> (Inl e, df11)
                                         | Inr penalty \<Rightarrow>
                                             (Inr \<lparr> has_missing = f_missing,
                                                   has_duplicate_rows = f_dup,
                                                   has_constant_column = f_const,
                                                   has_high_cardinality_categories = f_card,
                                                   has_suspicious_id_duplicates = f_id,
                                                   has_many_zero_values = f_zero,
                                                   quality_score =
                                                     py_max (Finite 0) (fsub (Finite 1) penalty),
                                                   metrics =
                                                     \<lparr> missing_shares = zip labels shares,
                                                       duplicate_rows_count = duplicate_count,
                                                       constant_columns = constant_cols,
                                                       high_cardinality_columns =
                                                         high_cardinality_cols,
                                                       suspicious_id_columns = suspicious_id_cols,
                                                       many_zero_columns = many_zero_cols \<rparr> \<rparr>,
                                              df11))))))"

section \<open>The specification's scoring model\<close>

text \<open>
  The penalty table of the specification, read off a report and evaluated in doubles. The
  missing share of a column is its missing count divided by the row count, the duplicate row
  share is the duplicate count divided by the row count. The contributions whose flag is set
  are added to 0.0 in the order of the table (\<open>penalty_sum\<close>) and the score is
  \<^verbatim>\<open>max(0.0, 1.0 - total_penalty)\<close> (\<open>clamped_score\<close>).

  The contribution of the constant columns is a parameter: \<open>constant_term_stated\<close> is
  \<^verbatim>\<open>0.1 * (num_constant_columns / num_total_columns)\<close>, the quotient first, as the
  specification writes it; \<open>constant_term_product_first\<close> is
  \<^verbatim>\<open>0.1 * num_constant_columns / num_total_columns\<close> read from left to right.
\<close>

definition spec_missing_share :: "table \<Rightarrow> column \<Rightarrow> rat" where
  "spec_missing_share df c = round64 (of_nat (missing_count c) / of_nat (nrows df))"

definition spec_max_missing_share :: "table \<Rightarrow> rat" where
  "spec_max_missing_share df = Max (spec_missing_share df ` set df)"

definition spec_duplicate_row_share :: "table \<Rightarrow> report \<Rightarrow> rat" where
  "spec_duplicate_row_share df r =
     round64 (of_nat (duplicate_rows_count (metrics r)) / of_nat (nrows df))"

definition constant_term_stated :: "nat \<Rightarrow> nat \<Rightarrow> rat" where
  "constant_term_stated k n = round64 (round64 (1 / 10) * round64 (of_nat k / of_nat n))"

definition constant_term_product_first :: "nat \<Rightarrow> nat \<Rightarrow> rat" where
  "constant_term_product_first k n = round64 (round64 (round64 (1 / 10) * of_nat k) / of_nat n)"

definition contributions :: "(nat \<Rightarrow> nat \<Rightarrow> rat) \<Rightarrow> table \<Rightarrow> report \<Rightarrow> rat list" where
  "contributions constant_term df r =
     (if has_missing r then [round64 (spec_max_missing_share df * round64 (3 / 10))] else [])
   @ (if has_duplicate_rows r
      then [min (round64 (spec_duplicate_row_share df r * (5 / 10))) (round64 (2 / 10))]
      else [])
   @ (if has_constant_column r
      then [constant_term (length (constant_columns (metrics r))) (length df)]
      else [])
   @ (if has_high_cardinality_categories r then [round64 (15 / 100)] else [])
   @ (if has_suspicious_id_duplicates r then [round64 (20 / 100)] else [])
   @ (if has_many_zero_values r then [round64 (10 / 100)] else [])"

definition penalty_sum :: "rat list \<Rightarrow> rat" where
  "penalty_sum cs = foldl (\<lambda>p c. round64 (p + c)) 0 cs"

definition clamped_score :: "rat \<Rightarrow> rat" where
  "clamped_score p = max 0 (round64 (1 - p))"

definition stated_score :: "table \<Rightarrow> report \<Rightarrow> rat" where
  "stated_score df r = clamped_score (penalty_sum (contributions constant_term_stated df r))"

definition amended_score :: "table \<Rightarrow> report \<Rightarrow> rat" where
  "amended_score df r =
     clamped_score (penalty_sum (contributions constant_term_product_first df r))"

section \<open>Predicates on thresholds, tables and labels\<close>

text \<open>
  A threshold that is a number; the thresholds the specification calls valid (numbers that are
  not negative); a table of zero rows; a table whose labels are all strs.
\<close>

definition is_number :: "pyval \<Rightarrow> bool" where
  "is_number v = (case v of PInt _ \<Rightarrow> True | PFloat _ \<Rightarrow> True | _ \<Rightarrow> False)"

definition valid_threshold :: "pyval \<Rightarrow> bool" where
  "valid_threshold v =
     (case v of PInt t \<Rightarrow> 0 \<le> t | PFloat (Finite q) \<Rightarrow> 0 \<le> q | _ \<Rightarrow> False)"

definition valid_config :: "kwargs \<Rightarrow> bool" where
  "valid_config kw =
     (valid_threshold (kwargs_get kw ''high_cardinality_threshold'' (PInt 100)) \<and>
      valid_threshold (kwargs_get kw ''zero_threshold'' (PFloat (Finite (1 / 2)))))"

definition zero_rows :: "table \<Rightarrow> bool" where
  "zero_rows df = list_all (\<lambda>c. cvalues c = []) df"

definition str_labels :: "table \<Rightarrow> bool" where
  "str_labels df = list_all (\<lambda>c. is_str (cname c)) df"

text \<open>
  The error a call ends with, if any, in the order in which the body can raise: repeated
  labels in check 3, a threshold that is not a number in check 4, a label that is not a str in
  check 5, a threshold that is not a number in check 6.
\<close>

definition failure_of :: "table \<Rightarrow> kwargs \<Rightarrow> error option" where
  "failure_of df kw =
     (if \<not> distinct (map cname df) then Some ValueError
      else if \<not> is_number (kwargs_get kw ''high_cardinality_threshold'' (PInt 100)) \<and>
              list_ex is_categorical df then Some TypeError
      else if \<not> str_labels df then Some AttributeError
      else if \<not> is_number (kwargs_get kw ''zero_threshold'' (PFloat (Finite (1 / 2)))) \<and>
              list_ex (\<lambda>c. cdtype c = Numeric) df then Some TypeError
      else None)"

text \<open>
  A label that contains \<^verbatim>\<open>id\<close> in any letter case: a str with two adjacent characters, the
  first \<^verbatim>\<open>i\<close> or \<^verbatim>\<open>I\<close>, the second \<^verbatim>\<open>d\<close> or \<^verbatim>\<open>D\<close>.
\<close>

definition contains_id :: "string \<Rightarrow> bool" where
  "contains_id name =
     list_ex (\<lambda>(x, y). (x = CHR ''i'' \<or> x = CHR ''I'') \<and> (y = CHR ''d'' \<or> y = CHR ''D''))
       (zip name (tl name))"

definition spec_id_candidate :: "label \<Rightarrow> bool" where
  "spec_id_candidate l = (case l of Str name \<Rightarrow> contains_id name | IntLabel _ \<Rightarrow> False)"

text \<open>
  The number of values that repeat an earlier one: the positions whose value occurs at an
  earlier position.
\<close>

definition spec_duplicate_count :: "'a list \<Rightarrow> nat" where
  "spec_duplicate_count xs = length (filter (\<lambda>i. xs ! i \<in> set (take i xs)) [0..<length xs])"

section \<open>Auxiliary predicates\<close>

text \<open>A float that is NaN or not negative.\<close>

definition nonneg_or_nan :: "float64 \<Rightarrow> bool" where
  "nonneg_or_nan x = (case x of NaN \<Rightarrow> True | Finite q \<Rightarrow> 0 \<le> q)"

section \<open>Tables of the test suite and of the specification's scenarios\<close>

definition sample_table :: table where
  "sample_table =
     [\<lparr>cname = Str ''age'', cdtype = Numeric, cvalues = [Num 10, Num 20, Num 30, NaNCell]\<rparr>,
      \<lparr>cname = Str ''height'', cdtype = Numeric, cvalues = [Num 140, Num 150, Num 160, Num 170]\<rparr>,
      \<lparr>cname = Str ''city'', cdtype = Object, cvalues = [Txt ''A'', Txt ''B'', Txt ''A'', NoneCell]\<rparr>]"

definition sample_report :: report where
  "sample_report =
     \<lparr>has_missing = True,
      has_duplicate_rows = False,
      has_constant_column = False,
      has_high_cardinality_categories = False,
      has_suspicious_id_duplicates = False,
      has_many_zero_values = False,
      quality_score = Finite (4165829655317709 / 4503599627370496),
      metrics =
        \<lparr>missing_shares = [(Str ''age'', Finite (1 / 4)), (Str ''height'', Finite 0), (Str ''city'', Finite (1 / 4))],
         duplicate_rows_count = 0,
         constant_columns = [],
         high_cardinality_columns = [],
         suspicious_id_columns = [],
         many_zero_columns = []\<rparr>\<rparr>"

definition constant_table :: table where
  "constant_table =
     [\<lparr>cname = Str ''A'', cdtype = Numeric, cvalues = [Num 1, Num 1, Num 1]\<rparr>,
      \<lparr>cname = Str ''B'', cdtype = Numeric, cvalues = [Num 2, Num 3, Num 4]\<rparr>]"

definition constant_report :: report where
  "constant_report =
     \<lparr>has_missing = False,
      has_duplicate_rows = False,
      has_constant_column = True,
      has_high_cardinality_categories = False,
      has_suspicious_id_duplicates = False,
      has_many_zero_values = False,
      quality_score = Finite (4278419646001971 / 4503599627370496),
      metrics =
        \<lparr>missing_shares = [(Str ''A'', Finite 0), (Str ''B'', Finite 0)],
         duplicate_rows_count = 0,
         constant_columns = [Str ''A''],
         high_cardinality_columns = [],
         suspicious_id_columns = [],
         many_zero_columns = []\<rparr>\<rparr>"

definition order_id_table :: table where
  "order_id_table =
     [\<lparr>cname = Str ''order_id'', cdtype = Numeric, cvalues = [Num 1, Num 2, Num 3, Num 4]\<rparr>]"

definition order_id_report :: report where
  "order_id_report =
     \<lparr>has_missing = False,
      has_duplicate_rows = False,
      has_constant_column = False,
      has_high_cardinality_categories = False,
      has_suspicious_id_duplicates = False,
      has_many_zero_values = False,
      quality_score = Finite 1,
      metrics =
        \<lparr>missing_shares = [(Str ''order_id'', Finite 0)],
         duplicate_rows_count = 0,
         constant_columns = [],
         high_cardinality_columns = [],
         suspicious_id_columns = [],
         many_zero_columns = []\<rparr>\<rparr>"

definition user_id_table :: table where
  "user_id_table =
     [\<lparr>cname = Str ''user_id'', cdtype = Numeric, cvalues = [Num 1, Num 2, Num 2, Num 4]\<rparr>]"

definition user_id_report :: report where
  "user_id_report =
     \<lparr>has_missing = False,
      has_duplicate_rows = True,
      has_constant_column = False,
      has_high_cardinality_categories = False,
      has_suspicious_id_duplicates = True,
      has_many_zero_values = False,
      quality_score = Finite (3039929748475085 / 4503599627370496),
      metrics =
        \<lparr>missing_shares = [(Str ''user_id'', Finite 0)],
         duplicate_rows_count = 1,
         constant_columns = [],
         high_cardinality_columns = [],
         suspicious_id_columns = [(Str ''user_id'', 1)],
         many_zero_columns = []\<rparr>\<rparr>"

definition cat_table :: table where
  "cat_table =
     [\<lparr>cname = Str ''cat'', cdtype = Object, cvalues = [Txt ''A'', Txt ''B'', Txt ''A'']\<rparr>]"

definition cat_report :: report where
  "cat_report =
     \<lparr>has_missing = False,
      has_duplicate_rows = True,
      has_constant_column = False,
      has_high_cardinality_categories = False,
      has_suspicious_id_duplicates = False,
      has_many_zero_values = False,
      quality_score = Finite (7505999378950827 / 9007199254740992),
      metrics =
        \<lparr>missing_shares = [(Str ''cat'', Finite 0)],
         duplicate_rows_count = 1,
         constant_columns = [],
         high_cardinality_columns = [],
         suspicious_id_columns = [],
         many_zero_columns = []\<rparr>\<rparr>"

definition cat_report_negative :: report where
  "cat_report_negative =
     \<lparr>has_missing = False,
      has_duplicate_rows = True,
      has_constant_column = False,
      has_high_cardinality_categories = True,
      has_suspicious_id_duplicates = False,
      has_many_zero_values = False,
      quality_score = Finite (3077459745369839 / 4503599627370496),
      metrics =
        \<lparr>missing_shares = [(Str ''cat'', Finite 0)],
         duplicate_rows_count = 1,
         constant_columns = [],
         high_cardinality_columns = [(Str ''cat'', 2)],
         suspicious_id_columns = [],
         many_zero_columns = []\<rparr>\<rparr>"

text \<open>A table of five columns, four of them constant, and no other flag.\<close>

definition five_table :: table where
  "five_table =
     [\<lparr>cname = Str ''a'', cdtype = Numeric, cvalues = [Num 1, Num 1]\<rparr>,
      \<lparr>cname = Str ''b'', cdtype = Numeric, cvalues = [Num 1, Num 1]\<rparr>,
      \<lparr>cname = Str ''c'', cdtype = Numeric, cvalues = [Num 1, Num 1]\<rparr>,
      \<lparr>cname = Str ''e'', cdtype = Numeric, cvalues = [Num 1, Num 1]\<rparr>,
      \<lparr>cname = Str ''v'', cdtype = Numeric, cvalues = [Num 1, Num 2]\<rparr>]"

definition five_report :: report where
  "five_report =
     \<lparr>has_missing = False,
      has_duplicate_rows = False,
      has_constant_column = True,
      has_high_cardinality_categories = False,
      has_suspicious_id_duplicates = False,
      has_many_zero_values = False,
      quality_score = Finite (8286623314361713 / 9007199254740992),
      metrics =
        \<lparr>missing_shares = [(Str ''a'', Finite 0), (Str ''b'', Finite 0), (Str ''c'', Finite 0), (Str ''e'', Finite 0), (Str ''v'', Finite 0)],
         duplicate_rows_count = 0,
         constant_columns = [Str ''a'', Str ''b'', Str ''c'', Str ''e''],
         high_cardinality_columns = [],
         suspicious_id_columns = [],
         many_zero_columns = []\<rparr>\<rparr>"

text \<open>Tables of zero rows, and tables with the labels pandas gives by default.\<close>

definition zero_rows_table :: table where
  "zero_rows_table =
     [\<lparr>cname = Str ''a'', cdtype = Numeric, cvalues = []\<rparr>,
      \<lparr>cname = Str ''b'', cdtype = Object, cvalues = []\<rparr>]"

definition zero_rows_default_labels :: table where
  "zero_rows_default_labels =
     [\<lparr>cname = IntLabel 0, cdtype = Object, cvalues = []\<rparr>,
      \<lparr>cname = IntLabel 1, cdtype = Object, cvalues = []\<rparr>]"

definition default_labels_table :: table where
  "default_labels_table =
     [\<lparr>cname = IntLabel 0, cdtype = Numeric, cvalues = [Num 1, Num 3]\<rparr>,
      \<lparr>cname = IntLabel 1, cdtype = Numeric, cvalues = [Num 2, Num 4]\<rparr>]"

text \<open>Tables in which two columns have the same label.\<close>

definition zero_rows_repeated_labels :: table where
  "zero_rows_repeated_labels =
     [\<lparr>cname = Str ''a'', cdtype = Object, cvalues = []\<rparr>,
      \<lparr>cname = Str ''a'', cdtype = Object, cvalues = []\<rparr>]"

definition repeated_labels_table :: table where
  "repeated_labels_table =
     [\<lparr>cname = Str ''a'', cdtype = Numeric, cvalues = [Num 1, Num 3]\<rparr>,
      \<lparr>cname = Str ''a'', cdtype = Numeric, cvalues = [Num 2, Num 4]\<rparr>]"

text \<open>An object column that holds \<^verbatim>\<open>None\<close>, a NaN and a text.\<close>

definition none_nan_table :: table where
  "none_nan_table =
     [\<lparr>cname = Str ''id'', cdtype = Object, cvalues = [NoneCell, NaNCell, Txt ''a'']\<rparr>]"

definition zero_rows_report :: "table \<Rightarrow> report" where
  "zero_rows_report df =
     \<lparr>has_missing = False, has_duplicate_rows = False, has_constant_column = False,
      has_high_cardinality_categories = False, has_suspicious_id_duplicates = False,
      has_many_zero_values = False, quality_score = Finite 1,
      metrics =
        \<lparr>missing_shares = map (\<lambda>c. (cname c, NaN)) df, duplicate_rows_count = 0,
         constant_columns = [], high_cardinality_columns = [], suspicious_id_columns = [],
         many_zero_columns = []\<rparr>\<rparr>"

definition none_nan_report :: report where
  "none_nan_report =
     \<lparr>has_missing = True,
      has_duplicate_rows = False,
      has_constant_column = True,
      has_high_cardinality_categories = False,
      has_suspicious_id_duplicates = False,
      has_many_zero_values = False,
      quality_score = Finite (3152519739159347 / 4503599627370496),
      metrics =
        \<lparr>missing_shares = [(Str ''id'', Finite (6004799503160661 / 9007199254740992))],
         duplicate_rows_count = 0,
         constant_columns = [Str ''id''],
         high_cardinality_columns = [],
         suspicious_id_columns = [],
         many_zero_columns = []\<rparr>\<rparr>"

section \<open>Evaluation\<close>

text \<open>Floor and ceiling of a quotient of numerals, and a character given by its code.\<close>

lemma floor_rat_numeral: "\<lfloor>numeral a / numeral b :: rat\<rfloor> = numeral a div numeral b"
  using floor_divide_of_int_eq [of "numeral a" "numeral b", where ?'a = rat] by simp

lemma ceiling_rat_numeral: "\<lceil>numeral a / numeral b :: rat\<rceil> = - (- numeral a div numeral b)"
proof -
  have "\<lceil>numeral a / numeral b :: rat\<rceil>
        = - \<lfloor>of_int (- numeral a) / of_int (numeral b) :: rat\<rfloor>"
    by (simp add: ceiling_def)
  also have "\<dots> = - (- numeral a div numeral b)"
    by (simp only: floor_divide_of_int_eq)
  finally show ?thesis .
qed

lemma char_of_nat_eq: "char_of (n::nat) = c \<longleftrightarrow> n mod 256 = of_char c"
proof -
  have "char_of n = c \<longleftrightarrow> (of_char (char_of n) :: nat) = of_char c"
    by (simp only: of_char_eq_iff)
  then show ?thesis by (simp add: of_char_of)
qed

lemmas round64_eval =
  round64_def round_pos_def round_half_even_def Let_def compute_floorlog
  floor_rat_numeral ceiling_rat_numeral

lemmas cqf_eval =
  compute_quality_flags_def constant_columns_of_def nunique_def is_categorical_def
  suspicious_id_cols_of_def lower_def char_lower_def duplicated_sum_def
  duplicated_def df_duplicated_sum_def merge_missing_def is_missing_def rows_def row_at_def
  nrows_def missing_count_def true_div_def zero_count_def
  penalty_of_def series_max_def py_min_def py_max_def kwargs_get_def sublist_code prefix_code
  upt_conv_Cons char_of_nat_eq round64_eval

lemma sample_table_report: "compute_quality_flags sample_table Map.empty = Inr sample_report"
  by (simp add: sample_table_def sample_report_def cqf_eval)

lemma sample_table_rectangular: "rectangular sample_table"
  by (simp add: rectangular_def sample_table_def nrows_def)

lemma constant_table_report:
  "compute_quality_flags constant_table Map.empty = Inr constant_report"
  by (simp add: constant_table_def constant_report_def cqf_eval)

lemma order_id_table_report:
  "compute_quality_flags order_id_table Map.empty = Inr order_id_report"
  by (simp add: order_id_table_def order_id_report_def cqf_eval)

lemma user_id_table_report:
  "compute_quality_flags user_id_table Map.empty = Inr user_id_report"
  by (simp add: user_id_table_def user_id_report_def cqf_eval)

lemma cat_table_report: "compute_quality_flags cat_table Map.empty = Inr cat_report"
  by (simp add: cat_table_def cat_report_def cqf_eval)

lemma five_table_report: "compute_quality_flags five_table Map.empty = Inr five_report"
  by (simp add: five_table_def five_report_def cqf_eval)

lemma five_table_rectangular: "rectangular five_table"
  by (simp add: rectangular_def five_table_def nrows_def)

text \<open>
  \<^verbatim>\<open>None\<close> and NaN are both missing, and neither repeats the other: the column is constant
  (one distinct value that is not missing) and has no repeated value.
\<close>

lemma none_nan_table_report:
  "compute_quality_flags none_nan_table Map.empty = Inr none_nan_report"
  by (simp add: none_nan_table_def none_nan_report_def cqf_eval)

section \<open>Rounding keeps signs and stays below 1\<close>

lemma rhe_ge: "of_int k \<le> m \<Longrightarrow> k \<le> round_half_even m"
proof -
  assume "of_int k \<le> m"
  then have "k \<le> \<lfloor>m\<rfloor>" by (simp add: le_floor_iff)
  then show ?thesis by (simp add: round_half_even_def Let_def)
qed

lemma rhe_le: "m \<le> of_int k \<Longrightarrow> round_half_even m \<le> k"
proof -
  assume a: "m \<le> of_int k"
  show ?thesis
  proof (cases "m = of_int k")
    case True
    then show ?thesis by (simp add: round_half_even_def Let_def)
  next
    case False
    with a have "m < of_int k" by simp
    then have "\<lfloor>m\<rfloor> < k" by (simp add: floor_less_iff)
    then show ?thesis by (simp add: round_half_even_def Let_def)
  qed
qed

lemma round_pos_ge_one:
  assumes "1 \<le> x"
  shows "0 < round_pos x"
proof -
  define n where "n = nat \<lfloor>x\<rfloor>"
  define k where "k = floorlog 2 n"
  from assms have "1 \<le> \<lfloor>x\<rfloor>" by (simp add: le_floor_iff)
  then have n: "0 < n" and nx: "of_nat n \<le> x"
    unfolding n_def by (simp_all add: of_nat_nat)
  from floorlog_bounds [OF n, of 2] have b: "2 ^ (k - 1) \<le> n" by (simp add: k_def)
  from n have k: "0 < k" by (simp add: k_def floorlog_def)
  then have pk: "(2::rat) ^ k = 2 * 2 ^ (k - 1)" by (cases k) simp_all
  from b have "(of_nat (2 ^ (k - 1)) :: rat) \<le> of_nat n" by (simp only: of_nat_le_iff)
  then have "(2::rat) ^ (k - 1) \<le> of_nat n" by simp
  from this nx have "(2::rat) ^ (k - 1) \<le> x" by (rule order_trans)
  then have "(2::rat) ^ 52 \<le> x * 2 ^ 53 / 2 ^ k"
    unfolding pk by (simp add: field_simps)
  then have "of_int (2 ^ 52) \<le> x * 2 ^ 53 / 2 ^ k" by simp
  then have "2 ^ 52 \<le> round_half_even (x * 2 ^ 53 / 2 ^ k)" by (rule rhe_ge)
  then have "0 < round_half_even (x * 2 ^ 53 / 2 ^ k)" by simp
  then have "0 < (of_int (round_half_even (x * 2 ^ 53 / 2 ^ k)) :: rat) * 2 ^ k / 2 ^ 53"
    by simp
  with assms show ?thesis by (simp add: round_pos_def Let_def k_def n_def)
qed

lemma round_pos_lt_one:
  assumes "0 < x" "x < 1"
  shows "0 < round_pos x \<and> round_pos x \<le> 1"
proof -
  define c where "c = \<lceil>1 / x\<rceil>"
  define n where "n = nat (c - 1)"
  define k where "k = floorlog 2 n"
  let ?m = "x * (2 ^ 52 * 2 ^ k)"
  from assms have y: "1 < 1 / x" by simp
  then have "1 < c" unfolding c_def by (simp add: less_ceiling_iff)
  then have n: "0 < n" and nc: "int n = c - 1" unfolding n_def by simp_all
  from floorlog_bounds [OF n, of 2] have b1: "2 ^ (k - 1) \<le> n" and b2: "n < 2 ^ k"
    by (simp_all add: k_def)
  from n have k: "0 < k" by (simp add: k_def floorlog_def)
  then have pk: "(2::rat) ^ k = 2 * 2 ^ (k - 1)" by (cases k) simp_all
  from b2 have "int n < 2 ^ k" by (metis of_nat_less_iff of_nat_numeral of_nat_power)
  with nc have "c \<le> 2 ^ k" by simp
  then have "(of_int c :: rat) \<le> of_int (2 ^ k)" by (simp only: of_int_le_iff)
  then have ck: "(of_int c :: rat) \<le> 2 ^ k" by simp
  have "1 / x \<le> of_int c" unfolding c_def by (rule le_of_int_ceiling)
  from this ck have "1 / x \<le> 2 ^ k" by (rule order_trans)
  with assms(1) have lo: "1 \<le> x * 2 ^ k" by (simp add: field_simps)
  then have "(2::rat) ^ 52 \<le> ?m" by simp
  then have "of_int (2 ^ 52) \<le> ?m" by simp
  then have r1: "2 ^ 52 \<le> round_half_even ?m" by (rule rhe_ge)
  from b1 have "(2::int) ^ (k - 1) \<le> int n" by (metis of_nat_le_iff of_nat_numeral of_nat_power)
  with nc have "(2::int) ^ (k - 1) \<le> c - 1" by simp
  then have "(of_int (2 ^ (k - 1)) :: rat) \<le> of_int (c - 1)" by (simp only: of_int_le_iff)
  then have c1: "(2::rat) ^ (k - 1) \<le> of_int c - 1" by simp
  have "of_int c - 1 < 1 / x"
    unfolding c_def using ceiling_correct [of "1 / x"] by simp
  with c1 have "(2::rat) ^ (k - 1) < 1 / x" by (rule le_less_trans)
  with assms(1) have "x * 2 ^ (k - 1) < 1" by (simp add: field_simps)
  then have "?m \<le> 2 ^ 53" unfolding pk by simp
  then have "?m \<le> of_int (2 ^ 53)" by simp
  then have r2: "round_half_even ?m \<le> 2 ^ 53" by (rule rhe_le)
  have e: "round_pos x = of_int (round_half_even ?m) / (2 ^ 52 * 2 ^ k)"
    using assms(2) by (simp add: round_pos_def Let_def k_def n_def c_def)
  from r1 have "0 < round_half_even ?m" by simp
  then have p: "0 < round_pos x" unfolding e by simp
  from r2 have "(of_int (round_half_even ?m) :: rat) \<le> of_int (2 ^ 53)"
    by (simp only: of_int_le_iff)
  then have "(of_int (round_half_even ?m) :: rat) \<le> 2 ^ 53" by simp
  also have "(2::rat) ^ 53 \<le> 2 ^ 52 * 2 ^ k" unfolding pk by simp
  finally have "round_pos x \<le> 1" unfolding e by (simp add: field_simps)
  with p show ?thesis by simp
qed

lemma round_pos_pos: "0 < x \<Longrightarrow> 0 < round_pos x"
  using round_pos_ge_one [of x] round_pos_lt_one [of x] by (cases "1 \<le> x") auto

lemma round64_0: "round64 0 = 0"
  by (simp add: round64_def)

lemma round64_1: "round64 1 = 1"
  by (simp add: round64_eval)

lemma round64_pos: "0 < x \<Longrightarrow> 0 < round64 x"
  by (simp add: round64_def round_pos_pos)

lemma round64_nonneg: "0 \<le> x \<Longrightarrow> 0 \<le> round64 x"
  using round64_pos [of x] by (cases "x = 0") (auto simp: round64_0 less_imp_le)

lemma round64_nonpos: "x \<le> 0 \<Longrightarrow> round64 x \<le> 0"
  using round_pos_pos [of "- x"] by (cases "x = 0") (auto simp: round64_def less_imp_le)

lemma round64_le_one: "x \<le> 1 \<Longrightarrow> round64 x \<le> 1"
proof -
  assume a: "x \<le> 1"
  consider "x \<le> 0" | "0 < x" "x < 1" | "x = 1" using a by fastforce
  then show ?thesis
  proof cases
    case 1
    from round64_nonpos [OF 1] show ?thesis by simp
  next
    case 2
    with round_pos_lt_one [of x] show ?thesis by (simp add: round64_def)
  next
    case 3
    then show ?thesis by (simp add: round64_1)
  qed
qed

section \<open>Inversion\<close>

text \<open>What a returned report consists of, field by field.\<close>

lemma cqf_inv:
  assumes "compute_quality_flags df kw = Inr r"
  shows "\<exists>cc hc ids mz p.
    constant_columns_of df = Inr cc \<and>
    high_cardinality_loop (kwargs_get kw ''high_cardinality_threshold'' (PInt 100))
       (filter is_categorical df) = Inr hc \<and>
    id_columns_of df = Inr ids \<and>
    many_zero_loop (kwargs_get kw ''zero_threshold'' (PFloat (Finite (1 / 2)))) (nrows df)
       (filter (\<lambda>c. cdtype c = Numeric) df) = Inr mz \<and>
    penalty_of df (has_missing r) (has_duplicate_rows r) (has_constant_column r)
       (has_high_cardinality_categories r) (has_suspicious_id_duplicates r)
       (has_many_zero_values r)
       (map (\<lambda>c. true_div (missing_count c) (nrows df)) df)
       (df_duplicated_sum df) cc = Inr p \<and>
    has_missing r = list_ex (\<lambda>k. k \<noteq> 0) (map missing_count df) \<and>
    has_duplicate_rows r = (df_duplicated_sum df > 0) \<and>
    has_constant_column r = (length cc > 0) \<and>
    has_high_cardinality_categories r = (length hc > 0) \<and>
    has_suspicious_id_duplicates r = (length (suspicious_id_cols_of ids) > 0) \<and>
    has_many_zero_values r = (length mz > 0) \<and>
    quality_score r = py_max (Finite 0) (fsub (Finite 1) p) \<and>
    missing_shares (metrics r) =
      zip (map cname df) (map (\<lambda>c. true_div (missing_count c) (nrows df)) df) \<and>
    duplicate_rows_count (metrics r) = df_duplicated_sum df \<and>
    constant_columns (metrics r) = cc \<and>
    high_cardinality_columns (metrics r) = hc \<and>
    suspicious_id_columns (metrics r) = suspicious_id_cols_of ids \<and>
    many_zero_columns (metrics r) = mz"
  using assms unfolding compute_quality_flags_def Let_def
  by (auto split: sum.splits)

lemma cqf_fields:
  assumes "compute_quality_flags df kw = Inr r"
  shows "constant_columns_of df = Inr (constant_columns (metrics r))"
    and "high_cardinality_loop (kwargs_get kw ''high_cardinality_threshold'' (PInt 100))
           (filter is_categorical df) = Inr (high_cardinality_columns (metrics r))"
    and "many_zero_loop (kwargs_get kw ''zero_threshold'' (PFloat (Finite (1 / 2)))) (nrows df)
           (filter (\<lambda>c. cdtype c = Numeric) df) = Inr (many_zero_columns (metrics r))"
    and "has_missing r = list_ex (\<lambda>k. k \<noteq> 0) (map missing_count df)"
    and "has_duplicate_rows r = (df_duplicated_sum df > 0)"
    and "has_constant_column r = (length (constant_columns (metrics r)) > 0)"
    and "has_high_cardinality_categories r = (length (high_cardinality_columns (metrics r)) > 0)"
    and "has_suspicious_id_duplicates r = (length (suspicious_id_columns (metrics r)) > 0)"
    and "has_many_zero_values r = (length (many_zero_columns (metrics r)) > 0)"
    and "missing_shares (metrics r) =
           zip (map cname df) (map (\<lambda>c. true_div (missing_count c) (nrows df)) df)"
    and "duplicate_rows_count (metrics r) = df_duplicated_sum df"
    and "\<exists>ids. id_columns_of df = Inr ids \<and>
           suspicious_id_columns (metrics r) = suspicious_id_cols_of ids"
  using cqf_inv [OF assms] by auto

lemma cqf_score:
  assumes "compute_quality_flags df kw = Inr r"
  shows "\<exists>p. penalty_of df (has_missing r) (has_duplicate_rows r) (has_constant_column r)
       (has_high_cardinality_categories r) (has_suspicious_id_duplicates r)
       (has_many_zero_values r)
       (map (\<lambda>c. true_div (missing_count c) (nrows df)) df)
       (duplicate_rows_count (metrics r)) (constant_columns (metrics r)) = Inr p \<and>
     quality_score r = py_max (Finite 0) (fsub (Finite 1) p)"
  using cqf_inv [OF assms] by auto

section \<open>The score stays between 0 and 1\<close>

lemma nonneg_fadd: "nonneg_or_nan a \<Longrightarrow> nonneg_or_nan b \<Longrightarrow> nonneg_or_nan (fadd a b)"
  by (cases a; cases b) (simp_all add: nonneg_or_nan_def round64_nonneg)

lemma nonneg_fmul: "nonneg_or_nan a \<Longrightarrow> nonneg_or_nan b \<Longrightarrow> nonneg_or_nan (fmul a b)"
  by (cases a; cases b) (simp_all add: nonneg_or_nan_def round64_nonneg)

lemma nonneg_py_min: "nonneg_or_nan a \<Longrightarrow> nonneg_or_nan b \<Longrightarrow> nonneg_or_nan (py_min a b)"
  by (simp add: py_min_def)

lemma nonneg_true_div: "nonneg_or_nan (true_div c n)"
  by (simp add: true_div_def nonneg_or_nan_def round64_nonneg)

lemma nonneg_Finite: "nonneg_or_nan (Finite q) = (0 \<le> q)"
  by (simp add: nonneg_or_nan_def)

lemma nonneg_literal: "0 \<le> q \<Longrightarrow> nonneg_or_nan (Finite (round64 q))"
  by (simp add: nonneg_or_nan_def round64_nonneg)

lemma fold_max_ge: "(a::rat) \<le> fold max qs a"
  by (induction qs arbitrary: a) (auto intro: order_trans [OF max.cobounded2])

lemma nonneg_series_max: "list_all nonneg_or_nan xs \<Longrightarrow> nonneg_or_nan (series_max xs)"
proof -
  assume a: "list_all nonneg_or_nan xs"
  let ?fin = "concat (map (\<lambda>x. case x of NaN \<Rightarrow> [] | Finite q \<Rightarrow> [q]) xs)"
  have pos: "list_all (\<lambda>q. 0 \<le> q) ?fin"
    using a by (induction xs) (auto simp: nonneg_or_nan_def split: float64.splits)
  show ?thesis
  proof (cases ?fin)
    case Nil
    show ?thesis unfolding series_max_def Nil by (simp add: nonneg_or_nan_def)
  next
    case (Cons q qs)
    with pos have "0 \<le> q" by simp
    also have "q \<le> fold max qs q" by (rule fold_max_ge)
    finally show ?thesis unfolding series_max_def Cons by (simp add: nonneg_or_nan_def)
  qed
qed

lemma penalty_nonneg:
  assumes "penalty_of df fm fd fc fh fi fz (map (\<lambda>c. true_div (missing_count c) n) df) dc cc
           = Inr p"
  shows "nonneg_or_nan p"
proof -
  let ?shares = "map (\<lambda>c. true_div (missing_count c) n) df"
  have s: "list_all nonneg_or_nan ?shares"
    by (simp add: list_all_iff nonneg_true_div)
  have z: "nonneg_or_nan (Finite 0)" by (simp add: nonneg_Finite)
  have c1: "nonneg_or_nan (fmul (series_max ?shares) (Finite (round64 (3 / 10))))"
    by (intro nonneg_fmul nonneg_series_max s nonneg_literal) simp
  have c2: "nonneg_or_nan (py_min (fmul (true_div dc (nrows df)) (Finite (1 / 2)))
                                  (Finite (round64 (2 / 10))))"
    by (intro nonneg_py_min nonneg_fmul nonneg_true_div nonneg_literal)
       (simp_all add: nonneg_Finite)
  have c3: "nonneg_or_nan (Finite (round64
             (round64 (round64 (1 / 10) * of_nat (length cc)) / of_nat (length df))))"
    by (intro nonneg_literal divide_nonneg_nonneg round64_nonneg mult_nonneg_nonneg) simp_all
  have c4: "nonneg_or_nan (Finite (round64 (15 / 100)))"
    and c5: "nonneg_or_nan (Finite (round64 (2 / 10)))"
    and c6: "nonneg_or_nan (Finite (round64 (1 / 10)))"
    by (simp_all add: nonneg_literal)
  define p1 where "p1 = (if fm then fadd (Finite 0) (fmul (series_max ?shares)
                            (Finite (round64 (3 / 10)))) else Finite 0)"
  define p2 where "p2 = (if fd then fadd p1 (py_min (fmul (true_div dc (nrows df))
                            (Finite (1 / 2))) (Finite (round64 (2 / 10)))) else p1)"
  define p3 where "p3 = (if fc then fadd p2 (Finite (round64
             (round64 (round64 (1 / 10) * of_nat (length cc)) / of_nat (length df)))) else p2)"
  define p4 where "p4 = (if fh then fadd p3 (Finite (round64 (15 / 100))) else p3)"
  define p5 where "p5 = (if fi then fadd p4 (Finite (round64 (2 / 10))) else p4)"
  define p6 where "p6 = (if fz then fadd p5 (Finite (round64 (1 / 10))) else p5)"
  have n1: "nonneg_or_nan p1" unfolding p1_def using z c1 by (simp add: nonneg_fadd)
  have n2: "nonneg_or_nan p2" unfolding p2_def using n1 c2 by (simp add: nonneg_fadd)
  have n3: "nonneg_or_nan p3" unfolding p3_def using n2 c3 by (simp add: nonneg_fadd)
  have n4: "nonneg_or_nan p4" unfolding p4_def using n3 c4 by (simp add: nonneg_fadd)
  have n5: "nonneg_or_nan p5" unfolding p5_def using n4 c5 by (simp add: nonneg_fadd)
  have n6: "nonneg_or_nan p6" unfolding p6_def using n5 c6 by (simp add: nonneg_fadd)
  from assms have "p = p6"
    unfolding penalty_of_def Let_def p6_def p5_def p4_def p3_def p2_def p1_def
    by (simp split: if_splits)
  with n6 show ?thesis by simp
qed

lemma score_bounds_aux:
  "nonneg_or_nan p \<Longrightarrow>
   \<exists>q. py_max (Finite 0) (fsub (Finite 1) p) = Finite q \<and> 0 \<le> q \<and> q \<le> 1"
  by (cases p) (auto simp: py_max_def nonneg_or_nan_def intro: round64_le_one)

text \<open>
  C2. Whenever the analysis returns a report, its \<^verbatim>\<open>quality_score\<close> is a finite number
  (not NaN) between 0 and 1, both included.
\<close>

theorem quality_score_bounds:
  assumes "compute_quality_flags df kw = Inr r"
  shows "\<exists>q. quality_score r = Finite q \<and> 0 \<le> q \<and> q \<le> 1"
proof -
  from cqf_inv [OF assms] obtain cc p where
    p: "penalty_of df (has_missing r) (has_duplicate_rows r) (has_constant_column r)
       (has_high_cardinality_categories r) (has_suspicious_id_duplicates r)
       (has_many_zero_values r)
       (map (\<lambda>c. true_div (missing_count c) (nrows df)) df)
       (df_duplicated_sum df) cc = Inr p"
    and r: "quality_score r = py_max (Finite 0) (fsub (Finite 1) p)"
    by blast
  from penalty_nonneg [OF p] have "nonneg_or_nan p" .
  from score_bounds_aux [OF this] r show ?thesis by simp
qed

theorem quality_score_bounds_witness:
  "compute_quality_flags sample_table Map.empty = Inr sample_report \<and>
   (\<exists>q. quality_score sample_report = Finite q \<and> 0 \<le> q \<and> q \<le> 1)"
  using quality_score_bounds [OF sample_table_report] sample_table_report by blast

section \<open>The score formula\<close>

lemma missing_count_le: "missing_count c \<le> length (cvalues c)"
  by (simp add: missing_count_def)

lemma rectangular_length: "rectangular df \<Longrightarrow> c \<in> set df \<Longrightarrow> length (cvalues c) = nrows df"
  by (simp add: rectangular_def list_all_iff)

lemma has_missing_rows:
  assumes "rectangular df" "list_ex (\<lambda>k. k \<noteq> 0) (map missing_count df)"
  shows "0 < nrows df \<and> df \<noteq> []"
proof -
  from assms(2) obtain c where c: "c \<in> set df" "missing_count c \<noteq> 0"
    by (auto simp: list_ex_iff)
  with missing_count_le [of c] rectangular_length [OF assms(1) c(1)] show ?thesis
    by auto
qed

lemma duplicated_from_length: "length (duplicated_from seen xs) = length xs"
  by (induction xs arbitrary: seen) auto

lemma duplicated_sum_le: "duplicated_sum xs \<le> length xs"
  unfolding duplicated_sum_def duplicated_def
  by (rule order_trans [OF length_filter_le]) (simp add: duplicated_from_length)

lemma df_duplicated_sum_le: "df_duplicated_sum df \<le> nrows df"
proof (cases df)
  case Nil
  then show ?thesis by (simp add: df_duplicated_sum_def)
next
  case (Cons c cs)
  show ?thesis
  proof (cases cs)
    case Nil
    with Cons show ?thesis
      using duplicated_sum_le [of "cvalues c"] by (simp add: df_duplicated_sum_def nrows_def)
  next
    case (Cons c' cs')
    with \<open>df = c # cs\<close> show ?thesis
      using duplicated_sum_le [of "map (map merge_missing) (rows df)"]
      by (simp add: df_duplicated_sum_def rows_def)
  qed
qed

lemma has_duplicate_rows_rows: "0 < df_duplicated_sum df \<Longrightarrow> 0 < nrows df"
  using df_duplicated_sum_le [of df] by simp

lemma series_max_Finite:
  assumes "qs \<noteq> []"
  shows "series_max (map Finite qs) = Finite (Max (set qs))"
proof -
  have c: "concat (map (\<lambda>x. case x of NaN \<Rightarrow> [] | Finite q \<Rightarrow> [q]) (map Finite qs)) = qs"
    by (induction qs) auto
  from assms obtain q qs' where q: "qs = q # qs'" by (cases qs) auto
  have "fold max qs' q = Max (set (q # qs'))" by (rule Max.set_eq_fold [symmetric])
  then show ?thesis unfolding series_max_def c unfolding q by simp
qed

lemma shares_Finite:
  "0 < n \<Longrightarrow> map (\<lambda>c. true_div (missing_count c) n) df
     = map Finite (map (\<lambda>c. round64 (of_nat (missing_count c) / of_nat n)) df)"
  by (simp add: true_div_def)

lemma max_share:
  assumes "0 < nrows df" "df \<noteq> []"
  shows "series_max (map (\<lambda>c. true_div (missing_count c) (nrows df)) df)
         = Finite (spec_max_missing_share df)"
proof -
  have "series_max (map (\<lambda>c. true_div (missing_count c) (nrows df)) df)
        = Finite (Max (set (map (\<lambda>c. round64 (of_nat (missing_count c) / of_nat (nrows df)))
                               df)))"
    unfolding shares_Finite [OF assms(1)] using assms(2) by (intro series_max_Finite) simp
  then show ?thesis
    by (simp add: spec_max_missing_share_def spec_missing_share_def [abs_def])
qed

lemma py_min_Finite: "py_min (Finite a) (Finite b) = Finite (min a b)"
  by (simp add: py_min_def min_def)

lemma constant_columns_nonempty:
  "constant_columns_of df = Inr cc \<Longrightarrow> 0 < length cc \<Longrightarrow> df \<noteq> []"
  by (auto simp: constant_columns_of_def split: if_splits)

text \<open>The accumulator adds the contributions whose flag is set to 0.0, in their order.\<close>

lemma penalty_spec:
  assumes "fm \<Longrightarrow> 0 < nrows df \<and> df \<noteq> []" "fd \<Longrightarrow> 0 < nrows df" "fc \<Longrightarrow> df \<noteq> []"
  shows "penalty_of df fm fd fc fh fi fz (map (\<lambda>c. true_div (missing_count c) (nrows df)) df) dc cc
    = Inr (Finite (penalty_sum
       ((if fm then [round64 (spec_max_missing_share df * round64 (3 / 10))] else [])
      @ (if fd then [min (round64 (round64 (of_nat dc / of_nat (nrows df)) * (5 / 10)))
                         (round64 (2 / 10))] else [])
      @ (if fc then [constant_term_product_first (length cc) (length df)] else [])
      @ (if fh then [round64 (15 / 100)] else [])
      @ (if fi then [round64 (20 / 100)] else [])
      @ (if fz then [round64 (10 / 100)] else []))))"
proof -
  have m: "fm \<Longrightarrow> series_max (map (\<lambda>c. true_div (missing_count c) (nrows df)) df)
         = Finite (spec_max_missing_share df)"
    using assms(1) max_share by blast
  have d: "fd \<Longrightarrow> true_div dc (nrows df) = Finite (round64 (of_nat dc / of_nat (nrows df)))"
    using assms(2) by (simp add: true_div_def)
  show ?thesis
    using assms(3) unfolding penalty_of_def Let_def penalty_sum_def
      constant_term_product_first_def
    by (cases fm; cases fd; cases fc; cases fh; cases fi; cases fz)
       (simp_all add: m d py_min_Finite)
qed

lemma clamped_score_eq:
  "py_max (Finite 0) (fsub (Finite 1) (Finite p)) = Finite (clamped_score p)"
  by (simp add: py_max_def clamped_score_def max_def)

text \<open>
  C1 (as amended). On a rectangular table, the score of every returned report is the double
  \<^verbatim>\<open>max(0.0, 1.0 - total_penalty)\<close>, where the total penalty is 0.0 plus, in this order and
  each exactly when its flag is set: \<^verbatim>\<open>max_missing_share * 0.3\<close>,
  \<^verbatim>\<open>min(duplicate_row_share * 0.5, 0.2)\<close>,
  \<^verbatim>\<open>0.1 * num_constant_columns / num_total_columns\<close> (the product first, then the
  quotient), 0.15, 0.2 and 0.1; with no flag set the score is exactly 1.0.
\<close>

theorem quality_score_formula:
  assumes "rectangular df" "compute_quality_flags df kw = Inr r"
  shows "quality_score r = Finite (amended_score df r) \<and>
         (\<not> has_missing r \<and> \<not> has_duplicate_rows r \<and> \<not> has_constant_column r \<and>
          \<not> has_high_cardinality_categories r \<and> \<not> has_suspicious_id_duplicates r \<and>
          \<not> has_many_zero_values r \<longrightarrow> quality_score r = Finite 1)"
proof -
  note f = cqf_fields [OF assms(2)]
  from cqf_score [OF assms(2)] obtain p where
    p: "penalty_of df (has_missing r) (has_duplicate_rows r) (has_constant_column r)
       (has_high_cardinality_categories r) (has_suspicious_id_duplicates r)
       (has_many_zero_values r)
       (map (\<lambda>c. true_div (missing_count c) (nrows df)) df)
       (duplicate_rows_count (metrics r)) (constant_columns (metrics r)) = Inr p"
    and q: "quality_score r = py_max (Finite 0) (fsub (Finite 1) p)"
    by blast
  have 1: "has_missing r \<Longrightarrow> 0 < nrows df \<and> df \<noteq> []"
    using has_missing_rows [OF assms(1)] f(4) by simp
  have 2: "has_duplicate_rows r \<Longrightarrow> 0 < nrows df"
    using has_duplicate_rows_rows f(5) by simp
  have 3: "has_constant_column r \<Longrightarrow> df \<noteq> []"
    using constant_columns_nonempty [OF f(1)] f(6) by simp
  have "penalty_of df (has_missing r) (has_duplicate_rows r) (has_constant_column r)
       (has_high_cardinality_categories r) (has_suspicious_id_duplicates r)
       (has_many_zero_values r)
       (map (\<lambda>c. true_div (missing_count c) (nrows df)) df)
       (duplicate_rows_count (metrics r)) (constant_columns (metrics r))
       = Inr (Finite (penalty_sum (contributions constant_term_product_first df r)))"
    unfolding contributions_def spec_duplicate_row_share_def
    by (rule penalty_spec [OF 1 2 3])
  with p have pe: "p = Finite (penalty_sum (contributions constant_term_product_first df r))"
    by simp
  have s: "quality_score r = Finite (amended_score df r)"
    unfolding q pe clamped_score_eq amended_score_def by (rule refl)
  moreover have "\<not> has_missing r \<and> \<not> has_duplicate_rows r \<and> \<not> has_constant_column r \<and>
          \<not> has_high_cardinality_categories r \<and> \<not> has_suspicious_id_duplicates r \<and>
          \<not> has_many_zero_values r \<longrightarrow> quality_score r = Finite 1"
    unfolding s
    by (simp add: amended_score_def contributions_def penalty_sum_def clamped_score_def
        round64_1)
  ultimately show ?thesis by blast
qed

theorem quality_score_formula_witness:
  "rectangular five_table \<and>
   compute_quality_flags five_table Map.empty = Inr five_report \<and>
   quality_score five_report = Finite (amended_score five_table five_report) \<and>
   amended_score five_table five_report = 8286623314361713 / 9007199254740992"
proof -
  have "amended_score five_table five_report = 8286623314361713 / 9007199254740992"
    by (simp add: amended_score_def contributions_def penalty_sum_def clamped_score_def
        constant_term_product_first_def five_report_def five_table_def round64_eval)
  with quality_score_formula [OF five_table_rectangular five_table_report]
    five_table_rectangular five_table_report
  show ?thesis by blast
qed

text \<open>
  C1 as stated fails. On the table of five columns of which four are constant the program
  returns 0.92, and the formula with \<^verbatim>\<open>0.1 * (num_constant_columns / num_total_columns)\<close>
  gives 0.9199999999999999: \<^verbatim>\<open>0.1 * 4 / 5\<close> is 0.08 and \<^verbatim>\<open>0.1 * (4 / 5)\<close> is
  0.08000000000000002.
\<close>

theorem quality_score_formula_counterexample:
  "compute_quality_flags five_table Map.empty = Inr five_report \<and>
   quality_score five_report = Finite (8286623314361713 / 9007199254740992) \<and>
   stated_score five_table five_report = 517913957147607 / 562949953421312 \<and>
   (8286623314361713 / 9007199254740992 :: rat) \<noteq> 517913957147607 / 562949953421312"
proof -
  have "stated_score five_table five_report = 517913957147607 / 562949953421312"
    by (simp add: stated_score_def contributions_def penalty_sum_def clamped_score_def
        constant_term_stated_def five_report_def five_table_def round64_eval)
  with five_table_report show ?thesis by (simp add: five_report_def)
qed

section \<open>Flags and their evidence\<close>

lemma zip_map_map_same: "zip (map f xs) (map g xs) = map (\<lambda>x. (f x, g x)) xs"
  by (induction xs) auto

lemma share_positive:
  assumes "rectangular df" "c \<in> set df"
  shows "fgt (true_div (missing_count c) (nrows df)) (Finite 0) \<longleftrightarrow> 0 < missing_count c"
proof (cases "0 < missing_count c")
  case True
  with missing_count_le [of c] rectangular_length [OF assms] have n: "0 < nrows df" by simp
  with True have "0 < (of_nat (missing_count c) :: rat) / of_nat (nrows df)" by simp
  then have "0 < round64 (of_nat (missing_count c) / of_nat (nrows df))" by (rule round64_pos)
  with True n show ?thesis by (simp add: true_div_def)
next
  case False
  then show ?thesis by (simp add: true_div_def round64_0)
qed

text \<open>
  C5. In every report returned for a rectangular table, each of the six flags is true exactly
  when its evidence is there: \<^verbatim>\<open>has_missing\<close> when some recorded missing share is positive
  (equivalently, some column has a positive missing count), \<^verbatim>\<open>has_duplicate_rows\<close> when the
  recorded duplicate count is positive, and each of the other four when its evidence list is
  not empty.
\<close>

theorem flags_match_evidence:
  assumes "rectangular df" "compute_quality_flags df kw = Inr r"
  shows "(has_missing r \<longleftrightarrow> (\<exists>(name, s) \<in> set (missing_shares (metrics r)). fgt s (Finite 0))) \<and>
         (has_missing r \<longleftrightarrow> (\<exists>c \<in> set df. 0 < missing_count c)) \<and>
         (has_duplicate_rows r \<longleftrightarrow> 0 < duplicate_rows_count (metrics r)) \<and>
         (has_constant_column r \<longleftrightarrow> constant_columns (metrics r) \<noteq> []) \<and>
         (has_high_cardinality_categories r \<longleftrightarrow> high_cardinality_columns (metrics r) \<noteq> []) \<and>
         (has_suspicious_id_duplicates r \<longleftrightarrow> suspicious_id_columns (metrics r) \<noteq> []) \<and>
         (has_many_zero_values r \<longleftrightarrow> many_zero_columns (metrics r) \<noteq> [])"
proof -
  note f = cqf_fields [OF assms(2)]
  have m: "has_missing r \<longleftrightarrow> (\<exists>c \<in> set df. 0 < missing_count c)"
    by (auto simp: f(4) list_ex_iff)
  have "(\<exists>(name, s) \<in> set (missing_shares (metrics r)). fgt s (Finite 0))
        \<longleftrightarrow> (\<exists>c \<in> set df. fgt (true_div (missing_count c) (nrows df)) (Finite 0))"
    by (simp add: f(10) zip_map_map_same)
  also have "\<dots> \<longleftrightarrow> (\<exists>c \<in> set df. 0 < missing_count c)"
    using share_positive [OF assms(1)] by blast
  finally have s: "has_missing r \<longleftrightarrow>
      (\<exists>(name, s) \<in> set (missing_shares (metrics r)). fgt s (Finite 0))"
    using m by simp
  show ?thesis
    using s m by (simp add: f(5-9) f(11))
qed

theorem flags_match_evidence_witness:
  "rectangular sample_table \<and>
   compute_quality_flags sample_table Map.empty = Inr sample_report \<and>
   has_missing sample_report \<and>
   (\<exists>(name, s) \<in> set (missing_shares (metrics sample_report)). fgt s (Finite 0)) \<and>
   \<not> has_duplicate_rows sample_report \<and>
   duplicate_rows_count (metrics sample_report) = 0"
  using flags_match_evidence [OF sample_table_rectangular sample_table_report]
    sample_table_rectangular sample_table_report
  by (simp add: sample_report_def)

section \<open>Constant columns\<close>

lemma nunique_card: "nunique c = card (set (cvalues c) - {NoneCell, NaNCell})"
proof -
  have "set (filter (\<lambda>v. \<not> is_missing v) (cvalues c)) = set (cvalues c) - {NoneCell, NaNCell}"
    by (auto simp: is_missing_def)
  then show ?thesis by (simp add: nunique_def length_remdups_card_conv)
qed

lemma nunique_one:
  "nunique c = 1 \<longleftrightarrow> (\<exists>v. \<not> is_missing v \<and> set (cvalues c) - {NoneCell, NaNCell} = {v})"
  unfolding nunique_card by (auto simp: card_1_singleton_iff is_missing_def)

text \<open>
  C6. In every returned report, a label is listed among the constant columns exactly when a
  column of that label has exactly one distinct non-missing value; a column whose values are
  all missing is not listed; and \<^verbatim>\<open>has_constant_column\<close> is true exactly when the list is
  not empty.
\<close>

theorem constant_columns_exact:
  assumes "compute_quality_flags df kw = Inr r"
  shows "(name \<in> set (constant_columns (metrics r)) \<longleftrightarrow>
           (\<exists>c \<in> set df. cname c = name \<and>
              (\<exists>v. \<not> is_missing v \<and> set (cvalues c) - {NoneCell, NaNCell} = {v}))) \<and>
         (\<forall>c \<in> set df. set (cvalues c) \<subseteq> {NoneCell, NaNCell} \<longrightarrow>
            cname c \<notin> set (constant_columns (metrics r))) \<and>
         (has_constant_column r \<longleftrightarrow> constant_columns (metrics r) \<noteq> [])"
proof -
  note f = cqf_fields [OF assms]
  from f(1) have d: "distinct (map cname df)"
    and cc: "constant_columns (metrics r) = map cname (filter (\<lambda>c. nunique c = 1) df)"
    by (auto simp: constant_columns_of_def split: if_splits)
  have 1: "name \<in> set (constant_columns (metrics r)) \<longleftrightarrow>
           (\<exists>c \<in> set df. cname c = name \<and>
              (\<exists>v. \<not> is_missing v \<and> set (cvalues c) - {NoneCell, NaNCell} = {v}))"
    unfolding cc nunique_one [symmetric] by auto
  have 2: "cname c \<notin> set (constant_columns (metrics r))"
    if c: "c \<in> set df" and miss: "set (cvalues c) \<subseteq> {NoneCell, NaNCell}" for c
  proof
    assume "cname c \<in> set (constant_columns (metrics r))"
    then obtain c' where c': "c' \<in> set df" "cname c' = cname c" "nunique c' = 1"
      unfolding cc by auto
    from d have "inj_on cname (set df)" by (simp add: distinct_map)
    with c c' have "c' = c" by (auto dest: inj_onD)
    moreover from miss have "set (cvalues c) - {NoneCell, NaNCell} = {}" by auto
    then have "nunique c = 0" by (simp add: nunique_card)
    ultimately show False using c'(3) by simp
  qed
  show ?thesis using 1 2 by (simp add: f(6))
qed

theorem constant_columns_exact_witness:
  "compute_quality_flags constant_table Map.empty = Inr constant_report \<and>
   Str ''A'' \<in> set (constant_columns (metrics constant_report)) \<and>
   (\<exists>c \<in> set constant_table. cname c = Str ''A'' \<and>
      (\<exists>v. \<not> is_missing v \<and> set (cvalues c) - {NoneCell, NaNCell} = {v})) \<and>
   has_constant_column constant_report"
  using constant_columns_exact [OF constant_table_report, of "Str ''A''"] constant_table_report
  by (simp add: constant_report_def)

section \<open>Labels that contain id\<close>

lemma char_lower_i: "char_lower x = CHR ''i'' \<longleftrightarrow> x = CHR ''i'' \<or> x = CHR ''I''"
proof
  assume a: "char_lower x = CHR ''i''"
  show "x = CHR ''i'' \<or> x = CHR ''I''"
  proof (cases "65 \<le> (of_char x :: nat) \<and> (of_char x :: nat) \<le> 90")
    case True
    with a have "char_of (of_char x + 32 :: nat) = CHR ''i''" by (simp add: char_lower_def)
    then have "(of_char (char_of (of_char x + 32 :: nat)) :: nat) = of_char (CHR ''i'')" by simp
    with True have "(of_char x :: nat) = of_char (CHR ''I'')" by (simp add: of_char_of)
    then have "x = CHR ''I''" by (simp only: of_char_eq_iff)
    then show ?thesis by simp
  next
    case False
    with a show ?thesis by (simp add: char_lower_def)
  qed
next
  assume "x = CHR ''i'' \<or> x = CHR ''I''"
  then show "char_lower x = CHR ''i''" by (auto simp: char_lower_def char_of_nat_eq)
qed

lemma char_lower_d: "char_lower x = CHR ''d'' \<longleftrightarrow> x = CHR ''d'' \<or> x = CHR ''D''"
proof
  assume a: "char_lower x = CHR ''d''"
  show "x = CHR ''d'' \<or> x = CHR ''D''"
  proof (cases "65 \<le> (of_char x :: nat) \<and> (of_char x :: nat) \<le> 90")
    case True
    with a have "char_of (of_char x + 32 :: nat) = CHR ''d''" by (simp add: char_lower_def)
    then have "(of_char (char_of (of_char x + 32 :: nat)) :: nat) = of_char (CHR ''d'')" by simp
    with True have "(of_char x :: nat) = of_char (CHR ''D'')" by (simp add: of_char_of)
    then have "x = CHR ''D''" by (simp only: of_char_eq_iff)
    then show ?thesis by simp
  next
    case False
    with a show ?thesis by (simp add: char_lower_def)
  qed
next
  assume "x = CHR ''d'' \<or> x = CHR ''D''"
  then show "char_lower x = CHR ''d''" by (auto simp: char_lower_def char_of_nat_eq)
qed

lemma sublist_pair:
  "sublist [a, b] ys \<longleftrightarrow> list_ex (\<lambda>(x, y). x = a \<and> y = b) (zip ys (tl ys))"
proof (induction ys)
  case Nil
  then show ?case by simp
next
  case (Cons y ys)
  show ?case
  proof (cases ys)
    case Nil
    then show ?thesis by (simp add: sublist_Cons_right)
  next
    case (Cons z zs)
    with Cons.IH show ?thesis by (auto simp: sublist_Cons_right)
  qed
qed

lemma lower_contains_id: "sublist ''id'' (lower s) \<longleftrightarrow> contains_id s"
proof -
  have z: "zip (map f xs) (tl (map f xs)) = map (\<lambda>(x, y). (f x, f y)) (zip xs (tl xs))"
    for f :: "char \<Rightarrow> char" and xs
    by (simp add: zip_map_map map_tl [symmetric] del: map_tl)
  show ?thesis
    unfolding contains_id_def lower_def
    by (simp add: sublist_pair z list_ex_iff char_lower_i char_lower_d split_def Bex_def)
qed

lemma id_columns_of_str:
  "str_labels df \<Longrightarrow> id_columns_of df = Inr (filter (\<lambda>c. spec_id_candidate (cname c)) df)"
proof (induction df)
  case Nil
  then show ?case by simp
next
  case (Cons c cs)
  then obtain s where s: "cname c = Str s"
    by (cases "cname c") (simp_all add: str_labels_def is_str_def)
  from Cons have "id_columns_of cs = Inr (filter (\<lambda>c. spec_id_candidate (cname c)) cs)"
    by (simp add: str_labels_def)
  with s show ?case by (simp add: spec_id_candidate_def lower_contains_id)
qed

lemma id_columns_of_not_str:
  "\<not> str_labels df \<Longrightarrow> id_columns_of df = Inl AttributeError"
proof (induction df)
  case Nil
  then show ?case by (simp add: str_labels_def)
next
  case (Cons c cs)
  show ?case
  proof (cases "cname c")
    case (Str s)
    with Cons.prems have "\<not> str_labels cs" by (simp add: str_labels_def is_str_def)
    with Cons.IH Str show ?thesis by simp
  next
    case (IntLabel i)
    then show ?thesis by simp
  qed
qed

section \<open>Counting repeated values, and the two threshold loops\<close>

lemma duplicated_from_spec:
  "length (filter (\<lambda>b. b) (duplicated_from seen xs))
   = length (filter (\<lambda>i. xs ! i \<in> set seen \<union> set (take i xs)) [0..<length xs])"
proof (induction xs arbitrary: seen)
  case Nil
  then show ?case by simp
next
  case (Cons x xs)
  have u: "[0..<length (x # xs)] = 0 # map Suc [0..<length xs]"
    by (simp only: length_Cons map_Suc_upt upt_conv_Cons [OF zero_less_Suc])
  have p: "(\<lambda>i. xs ! i = x \<or> xs ! i \<in> set seen \<or> xs ! i \<in> set (take i xs))
         = (\<lambda>i. xs ! i \<in> set seen \<or> xs ! i = x \<or> xs ! i \<in> set (take i xs))"
    by auto
  show ?case
    unfolding u by (simp add: Cons.IH [of "x # seen"] filter_map o_def p)
qed

lemma duplicated_sum_spec: "duplicated_sum xs = spec_duplicate_count xs"
  using duplicated_from_spec [of "[]" xs]
  by (simp add: duplicated_sum_def duplicated_def spec_duplicate_count_def)

lemma num_gt_number: "is_number th \<Longrightarrow> \<exists>b. num_gt x th = Inr b"
  by (cases th) (simp_all add: is_number_def)

lemma num_gt_not_number: "\<not> is_number th \<Longrightarrow> num_gt x th = Inl TypeError"
  by (cases th) (simp_all add: is_number_def)

lemma high_cardinality_loop_number:
  "is_number th \<Longrightarrow> \<exists>r. high_cardinality_loop th cs = Inr r"
proof (induction cs)
  case Nil
  then show ?case by simp
next
  case (Cons c cs)
  from Cons obtain r where "high_cardinality_loop th cs = Inr r" by blast
  moreover from num_gt_number [OF Cons.prems]
  obtain b where "num_gt (Finite (of_nat (nunique c))) th = Inr b" by blast
  ultimately show ?case by simp
qed

lemma high_cardinality_loop_not_number:
  "\<not> is_number th \<Longrightarrow> cs \<noteq> [] \<Longrightarrow> high_cardinality_loop th cs = Inl TypeError"
  by (cases cs) (simp_all add: num_gt_not_number)

lemma many_zero_loop_number:
  "is_number th \<Longrightarrow> \<exists>r. many_zero_loop th n cs = Inr r"
proof (induction cs)
  case Nil
  then show ?case by simp
next
  case (Cons c cs)
  from Cons obtain r where "many_zero_loop th n cs = Inr r" by blast
  moreover from num_gt_number [OF Cons.prems]
  obtain b where "num_gt (true_div (zero_count c) n) th = Inr b" by blast
  ultimately show ?case by (simp add: Let_def)
qed

lemma many_zero_loop_not_number:
  "\<not> is_number th \<Longrightarrow> cs \<noteq> [] \<Longrightarrow> many_zero_loop th n cs = Inl TypeError"
  by (cases cs) (simp_all add: num_gt_not_number Let_def)

lemma filter_nonempty: "filter P xs \<noteq> [] \<longleftrightarrow> list_ex P xs"
  by (induction xs) auto

lemma penalty_of_defined:
  "(fc \<Longrightarrow> df \<noteq> []) \<Longrightarrow> \<exists>p. penalty_of df fm fd fc fh fi fz sh dc cc = Inr p"
  by (cases fc) (simp_all add: penalty_of_def Let_def)

section \<open>How a call ends\<close>

lemma cqf_outcome:
  "(case failure_of df kw of
      Some e \<Rightarrow> compute_quality_flags df kw = Inl e
    | None \<Rightarrow> (\<exists>r. compute_quality_flags df kw = Inr r))"
proof -
  let ?hth = "kwargs_get kw ''high_cardinality_threshold'' (PInt 100)"
  let ?zth = "kwargs_get kw ''zero_threshold'' (PFloat (Finite (1 / 2)))"
  let ?cats = "filter is_categorical df"
  let ?nums = "filter (\<lambda>c. cdtype c = Numeric) df"
  let ?cc = "map cname (filter (\<lambda>c. nunique c = 1) df)"
  show ?thesis
  proof (cases "distinct (map cname df)")
    case False
    then have "constant_columns_of df = Inl ValueError" by (simp add: constant_columns_of_def)
    then have "compute_quality_flags df kw = Inl ValueError"
      by (simp add: compute_quality_flags_def Let_def)
    with False show ?thesis by (simp add: failure_of_def)
  next
    case d: True
    then have cc: "constant_columns_of df = Inr ?cc" by (simp add: constant_columns_of_def)
    have pen: "\<exists>p. penalty_of df fm fd (0 < length ?cc) fh fi fz sh dc ?cc = Inr p"
      for fm fd fh fi fz sh dc
      by (rule penalty_of_defined) auto
    show ?thesis
    proof (cases "\<not> is_number ?hth \<and> list_ex is_categorical df")
      case True
      then have "high_cardinality_loop ?hth ?cats = Inl TypeError"
        by (simp add: high_cardinality_loop_not_number filter_nonempty)
      then have "compute_quality_flags df kw = Inl TypeError"
        by (simp add: compute_quality_flags_def cc Let_def)
      with d True show ?thesis by (simp add: failure_of_def)
    next
      case hc: False
      have "\<exists>r. high_cardinality_loop ?hth ?cats = Inr r"
      proof (cases "is_number ?hth")
        case True
        then show ?thesis by (rule high_cardinality_loop_number)
      next
        case False
        with hc have "?cats = []" using filter_nonempty [of is_categorical df] by blast
        then show ?thesis by simp
      qed
      then obtain hcr where hcr: "high_cardinality_loop ?hth ?cats = Inr hcr" by blast
      show ?thesis
      proof (cases "str_labels df")
        case False
        then have "id_columns_of df = Inl AttributeError" by (rule id_columns_of_not_str)
        then have "compute_quality_flags df kw = Inl AttributeError"
          by (simp add: compute_quality_flags_def cc hcr Let_def)
        with d hc False show ?thesis unfolding failure_of_def by auto
      next
        case sl: True
        then have ids: "id_columns_of df = Inr (filter (\<lambda>c. spec_id_candidate (cname c)) df)"
          by (rule id_columns_of_str)
        show ?thesis
        proof (cases "\<not> is_number ?zth \<and> list_ex (\<lambda>c. cdtype c = Numeric) df")
          case True
          then have "many_zero_loop ?zth (nrows df) ?nums = Inl TypeError"
            by (simp add: many_zero_loop_not_number filter_nonempty)
          then have "compute_quality_flags df kw = Inl TypeError"
            by (simp add: compute_quality_flags_def cc hcr ids Let_def)
          with d hc sl True show ?thesis unfolding failure_of_def by auto
        next
          case mz: False
          have "\<exists>r. many_zero_loop ?zth (nrows df) ?nums = Inr r"
          proof (cases "is_number ?zth")
            case True
            then show ?thesis by (rule many_zero_loop_number)
          next
            case False
            with mz have "?nums = []"
              using filter_nonempty [of "\<lambda>c. cdtype c = Numeric" df] by blast
            then show ?thesis by simp
          qed
          then obtain mzr where mzr: "many_zero_loop ?zth (nrows df) ?nums = Inr mzr" by blast
          from pen obtain p where
            "penalty_of df (list_ex (\<lambda>k. k \<noteq> 0) (map missing_count df))
               (0 < df_duplicated_sum df) (0 < length ?cc) (0 < length hcr)
               (0 < length (suspicious_id_cols_of
                              (filter (\<lambda>c. spec_id_candidate (cname c)) df)))
               (0 < length mzr)
               (map (\<lambda>c. true_div (missing_count c) (nrows df)) df)
               (df_duplicated_sum df) ?cc = Inr p"
            by blast
          then have "\<exists>r. compute_quality_flags df kw = Inr r"
            by (simp add: compute_quality_flags_def cc hcr ids mzr Let_def)
          with d hc sl mz show ?thesis unfolding failure_of_def by auto
        qed
      qed
    qed
  qed
qed

section \<open>Thresholds are not validated\<close>

text \<open>
  C3 (as amended). The program has no \<^verbatim>\<open>InvalidConfiguration\<close> error and does not look at
  a threshold before it compares it. A call ends as follows, for every table and
  configuration: with ValueError when two columns have the same label; otherwise with
  TypeError when \<^verbatim>\<open>high_cardinality_threshold\<close> is not a number and the table has an object
  or category column; otherwise with AttributeError when a label is not a str; otherwise with
  TypeError when \<^verbatim>\<open>zero_threshold\<close> is not a number and the table has a numeric column;
  otherwise with a report. So a threshold that is a number, negative or not, never makes the
  call fail, and one that is not a number makes it fail, with TypeError, only where it is
  compared with a column.
\<close>

theorem thresholds_not_validated:
  "(case failure_of df kw of
      Some e \<Rightarrow> compute_quality_flags df kw = Inl e
    | None \<Rightarrow> (\<exists>r. compute_quality_flags df kw = Inr r))"
  by (rule cqf_outcome)

theorem thresholds_not_validated_witness:
  "failure_of cat_table [''high_cardinality_threshold'' \<mapsto> PStr ''high''] = Some TypeError \<and>
   compute_quality_flags cat_table [''high_cardinality_threshold'' \<mapsto> PStr ''high'']
     = Inl TypeError \<and>
   failure_of cat_table [''high_cardinality_threshold'' \<mapsto> PInt (- 1)] = None \<and>
   (\<exists>r. compute_quality_flags cat_table [''high_cardinality_threshold'' \<mapsto> PInt (- 1)] = Inr r)"
proof -
  have a: "failure_of cat_table [''high_cardinality_threshold'' \<mapsto> PStr ''high'']
           = Some TypeError"
    by (simp add: failure_of_def cat_table_def kwargs_get_def is_number_def is_categorical_def)
  have b: "failure_of cat_table [''high_cardinality_threshold'' \<mapsto> PInt (- 1)] = None"
    by (simp add: failure_of_def cat_table_def kwargs_get_def is_number_def is_categorical_def
        str_labels_def is_str_def)
  from thresholds_not_validated
         [of cat_table "[''high_cardinality_threshold'' \<mapsto> PStr ''high'']"]
       thresholds_not_validated
         [of cat_table "[''high_cardinality_threshold'' \<mapsto> PInt (- 1)]"]
  show ?thesis unfolding a b by simp
qed

text \<open>
  C3 as stated fails: with \<^verbatim>\<open>high_cardinality_threshold=-1\<close> the call returns a report
  (in which the column \<^verbatim>\<open>cat\<close> is flagged) instead of failing.
\<close>

theorem threshold_rejection_counterexample:
  "compute_quality_flags cat_table [''high_cardinality_threshold'' \<mapsto> PInt (- 1)]
   = Inr cat_report_negative"
  by (simp add: cat_table_def cat_report_negative_def cqf_eval)

section \<open>Tables of zero rows\<close>

lemma high_cardinality_loop_zero:
  assumes "valid_threshold th" "\<forall>c \<in> set cs. nunique c = 0"
  shows "high_cardinality_loop th cs = Inr []"
  using assms(2)
proof (induction cs)
  case Nil
  then show ?case by simp
next
  case (Cons c cs)
  from assms(1) have "num_gt (Finite 0) th = Inr False"
    by (cases th) (auto simp: valid_threshold_def split: float64.splits)
  with Cons show ?case by simp
qed

lemma many_zero_loop_zero:
  assumes "is_number th"
  shows "many_zero_loop th 0 cs = Inr []"
proof (induction cs)
  case Nil
  then show ?case by simp
next
  case (Cons c cs)
  from assms have "num_gt NaN th = Inr False"
    by (cases th) (auto simp: is_number_def)
  with Cons show ?case by (simp add: true_div_def)
qed

lemma valid_threshold_number: "valid_threshold th \<Longrightarrow> is_number th"
  by (cases th) (auto simp: valid_threshold_def is_number_def)

lemma df_duplicated_sum_zero: "nrows df = 0 \<Longrightarrow> df_duplicated_sum df = 0"
  using df_duplicated_sum_le [of df] by simp

text \<open>
  C4 (as amended). For every table of zero rows and every configuration whose thresholds are
  absent or numbers that are not negative: every per-column missing share and zero share is
  NaN, the value of \<^verbatim>\<open>0 / 0\<close>; when the labels are distinct strs the analysis returns a
  report in which all six flags are false, the score is 1.0, the duplicate count is 0, the
  four evidence lists are empty and the recorded missing shares are NaN; when two columns
  have the same label it raises ValueError, and when the labels are distinct and one is not a
  str it raises AttributeError.
\<close>

theorem zero_rows_report_exact:
  assumes "zero_rows df" "valid_config kw"
  shows "(distinct (map cname df) \<and> str_labels df \<longrightarrow>
            compute_quality_flags df kw = Inr (zero_rows_report df)) \<and>
         (\<not> distinct (map cname df) \<longrightarrow> compute_quality_flags df kw = Inl ValueError) \<and>
         (distinct (map cname df) \<and> \<not> str_labels df \<longrightarrow>
            compute_quality_flags df kw = Inl AttributeError) \<and>
         (\<forall>c \<in> set df. true_div (missing_count c) (nrows df) = NaN \<and>
                        true_div (zero_count c) (nrows df) = NaN)"
proof -
  from assms(1) have e: "\<And>c. c \<in> set df \<Longrightarrow> cvalues c = []"
    by (simp add: zero_rows_def list_all_iff)
  have n: "nrows df = 0" using e by (cases df) (simp_all add: nrows_def)
  have m: "\<And>c. c \<in> set df \<Longrightarrow> missing_count c = 0" using e by (simp add: missing_count_def)
  have u: "\<And>c. c \<in> set df \<Longrightarrow> nunique c = 0" using e by (simp add: nunique_def)
  have fm: "list_ex (\<lambda>k. k \<noteq> 0) (map missing_count df) = False"
    using m by (auto simp: list_ex_iff)
  have d: "df_duplicated_sum df = 0" by (rule df_duplicated_sum_zero [OF n])
  from assms(2) have vh: "valid_threshold (kwargs_get kw ''high_cardinality_threshold'' (PInt 100))"
    and vz: "valid_threshold (kwargs_get kw ''zero_threshold'' (PFloat (Finite (1 / 2))))"
    by (simp_all add: valid_config_def)
  have hc: "high_cardinality_loop (kwargs_get kw ''high_cardinality_threshold'' (PInt 100))
              (filter is_categorical df) = Inr []"
    by (rule high_cardinality_loop_zero [OF vh]) (simp add: u)
  have mz: "many_zero_loop (kwargs_get kw ''zero_threshold'' (PFloat (Finite (1 / 2)))) 0
              (filter (\<lambda>c. cdtype c = Numeric) df) = Inr []"
    by (rule many_zero_loop_zero [OF valid_threshold_number [OF vz]])
  have sh: "zip (map cname df) (map (\<lambda>c. true_div (missing_count c) 0) df)
            = map (\<lambda>c. (cname c, NaN)) df"
    by (simp add: zip_map_map_same true_div_def)
  have 1: "compute_quality_flags df kw = Inr (zero_rows_report df)"
    if dd: "distinct (map cname df)" and sl: "str_labels df"
  proof -
    have cc: "constant_columns_of df = Inr []"
      using dd u by (simp add: constant_columns_of_def filter_empty_conv)
    have ids: "id_columns_of df = Inr (filter (\<lambda>c. spec_id_candidate (cname c)) df)"
      using sl by (rule id_columns_of_str)
    have s: "suspicious_id_cols_of (filter (\<lambda>c. spec_id_candidate (cname c)) df) = []"
      using e by (simp add: suspicious_id_cols_of_def filter_empty_conv duplicated_sum_def
          duplicated_def)
    show ?thesis
      unfolding compute_quality_flags_def Let_def n fm d cc hc ids mz sh
      by (simp add: s penalty_of_def Let_def py_max_def round64_0 round64_1
          zero_rows_report_def)
  qed
  have 2: "compute_quality_flags df kw = Inl ValueError" if "\<not> distinct (map cname df)"
    using that by (simp add: compute_quality_flags_def Let_def constant_columns_of_def)
  have 3: "compute_quality_flags df kw = Inl AttributeError"
    if dd: "distinct (map cname df)" and sl: "\<not> str_labels df"
  proof -
    have cc: "constant_columns_of df = Inr []"
      using dd u by (simp add: constant_columns_of_def filter_empty_conv)
    have ids: "id_columns_of df = Inl AttributeError"
      using sl by (rule id_columns_of_not_str)
    show ?thesis
      unfolding compute_quality_flags_def Let_def cc hc ids by simp
  qed
  have 4: "\<forall>c \<in> set df. true_div (missing_count c) (nrows df) = NaN \<and>
                        true_div (zero_count c) (nrows df) = NaN"
    by (simp add: n true_div_def)
  from 1 2 3 4 show ?thesis by blast
qed

theorem zero_rows_report_exact_witness:
  "zero_rows zero_rows_table \<and> valid_config Map.empty \<and>
   distinct (map cname zero_rows_table) \<and> str_labels zero_rows_table \<and>
   compute_quality_flags zero_rows_table Map.empty = Inr (zero_rows_report zero_rows_table) \<and>
   quality_score (zero_rows_report zero_rows_table) = Finite 1"
proof -
  have d: "distinct (map cname zero_rows_table)" by (simp add: zero_rows_table_def)
  have s: "str_labels zero_rows_table"
    by (simp add: zero_rows_table_def str_labels_def is_str_def)
  have z: "zero_rows zero_rows_table" by (simp add: zero_rows_table_def zero_rows_def)
  have v: "valid_config Map.empty"
    by (simp add: valid_config_def kwargs_get_def valid_threshold_def)
  from zero_rows_report_exact [OF z v] d s z v show ?thesis
    by (simp add: zero_rows_report_def)
qed

text \<open>
  C4 as stated fails: on a table of zero rows the recorded missing shares are NaN, not 0.0;
  on a table of zero rows with the labels 0 and 1 the call raises AttributeError; and on a
  table of zero rows with two columns \<^verbatim>\<open>a\<close> it raises ValueError.
\<close>

theorem zero_rows_counterexample:
  "zero_rows zero_rows_table \<and>
   compute_quality_flags zero_rows_table Map.empty = Inr (zero_rows_report zero_rows_table) \<and>
   missing_shares (metrics (zero_rows_report zero_rows_table))
     = [(Str ''a'', NaN), (Str ''b'', NaN)] \<and>
   NaN \<noteq> Finite 0 \<and>
   zero_rows zero_rows_default_labels \<and>
   compute_quality_flags zero_rows_default_labels Map.empty = Inl AttributeError \<and>
   zero_rows zero_rows_repeated_labels \<and>
   compute_quality_flags zero_rows_repeated_labels Map.empty = Inl ValueError"
  by (simp add: zero_rows_table_def zero_rows_default_labels_def zero_rows_repeated_labels_def
      zero_rows_report_def zero_rows_def cqf_eval)

section \<open>Suspicious identifier columns\<close>

text \<open>
  C7 (as amended). When every label is a str, the candidate columns are exactly the columns
  whose label contains \<^verbatim>\<open>id\<close> in any letter case; when some label is not a str, selecting
  the candidates raises AttributeError and the call returns no report. In a returned report
  the evidence lists, in column order, exactly the candidates with a positive count of values
  that repeat an earlier one, each with that count (a candidate with no repeated value is not
  listed); \<^verbatim>\<open>has_suspicious_id_duplicates\<close> is true exactly when some candidate has a
  positive count; and a table without candidates has an empty evidence list and a false flag.
\<close>

theorem id_evidence_exact:
  "(str_labels df \<longrightarrow>
      id_columns_of df = Inr (filter (\<lambda>c. spec_id_candidate (cname c)) df)) \<and>
   (\<not> str_labels df \<longrightarrow>
      id_columns_of df = Inl AttributeError \<and> (\<forall>r'. compute_quality_flags df kw \<noteq> Inr r')) \<and>
   (compute_quality_flags df kw = Inr r \<longrightarrow>
      suspicious_id_columns (metrics r)
        = map (\<lambda>c. (cname c, spec_duplicate_count (cvalues c)))
            (filter (\<lambda>c. spec_id_candidate (cname c) \<and> 0 < spec_duplicate_count (cvalues c)) df) \<and>
      (has_suspicious_id_duplicates r \<longleftrightarrow>
         (\<exists>c \<in> set df. spec_id_candidate (cname c) \<and> 0 < spec_duplicate_count (cvalues c))) \<and>
      ((\<forall>c \<in> set df. \<not> spec_id_candidate (cname c)) \<longrightarrow>
         suspicious_id_columns (metrics r) = [] \<and> \<not> has_suspicious_id_duplicates r))"
proof -
  have 1: "str_labels df \<longrightarrow>
      id_columns_of df = Inr (filter (\<lambda>c. spec_id_candidate (cname c)) df)"
    by (simp add: id_columns_of_str)
  have 2: "\<not> str_labels df \<longrightarrow>
      id_columns_of df = Inl AttributeError \<and> (\<forall>r'. compute_quality_flags df kw \<noteq> Inr r')"
  proof
    assume n: "\<not> str_labels df"
    then have a: "id_columns_of df = Inl AttributeError" by (rule id_columns_of_not_str)
    have "compute_quality_flags df kw \<noteq> Inr r'" for r'
    proof
      assume "compute_quality_flags df kw = Inr r'"
      from cqf_fields(12) [OF this] a show False by simp
    qed
    with a show "id_columns_of df = Inl AttributeError \<and>
                 (\<forall>r'. compute_quality_flags df kw \<noteq> Inr r')" by simp
  qed
  have 3: "suspicious_id_columns (metrics r)
        = map (\<lambda>c. (cname c, spec_duplicate_count (cvalues c)))
            (filter (\<lambda>c. spec_id_candidate (cname c) \<and> 0 < spec_duplicate_count (cvalues c)) df) \<and>
      (has_suspicious_id_duplicates r \<longleftrightarrow>
         (\<exists>c \<in> set df. spec_id_candidate (cname c) \<and> 0 < spec_duplicate_count (cvalues c))) \<and>
      ((\<forall>c \<in> set df. \<not> spec_id_candidate (cname c)) \<longrightarrow>
         suspicious_id_columns (metrics r) = [] \<and> \<not> has_suspicious_id_duplicates r)"
    if ok: "compute_quality_flags df kw = Inr r"
  proof -
    note f = cqf_fields [OF ok]
    from f(12) obtain ids where ids: "id_columns_of df = Inr ids"
      and sus: "suspicious_id_columns (metrics r) = suspicious_id_cols_of ids" by blast
    from ids 2 have sl: "str_labels df" by auto
    from ids id_columns_of_str [OF sl]
    have i: "ids = filter (\<lambda>c. spec_id_candidate (cname c)) df" by simp
    have ev: "suspicious_id_columns (metrics r)
           = map (\<lambda>c. (cname c, spec_duplicate_count (cvalues c)))
               (filter (\<lambda>c. spec_id_candidate (cname c) \<and> 0 < spec_duplicate_count (cvalues c))
                  df)"
      unfolding sus i suspicious_id_cols_of_def
      by (simp add: duplicated_sum_spec conj_commute)
    have fl: "has_suspicious_id_duplicates r \<longleftrightarrow> suspicious_id_columns (metrics r) \<noteq> []"
      by (simp add: f(8))
    have ex: "suspicious_id_columns (metrics r) \<noteq> [] \<longleftrightarrow>
              (\<exists>c \<in> set df. spec_id_candidate (cname c) \<and> 0 < spec_duplicate_count (cvalues c))"
      unfolding ev by (simp add: filter_empty_conv)
    show ?thesis using ev fl ex by blast
  qed
  from 1 2 3 show ?thesis by blast
qed

theorem id_evidence_exact_witness:
  "str_labels user_id_table \<and>
   compute_quality_flags user_id_table Map.empty = Inr user_id_report \<and>
   suspicious_id_columns (metrics user_id_report) = [(Str ''user_id'', 1)] \<and>
   has_suspicious_id_duplicates user_id_report \<and>
   (\<exists>c \<in> set user_id_table. spec_id_candidate (cname c) \<and> 0 < spec_duplicate_count (cvalues c))"
proof -
  have s: "str_labels user_id_table"
    by (simp add: user_id_table_def str_labels_def is_str_def)
  from id_evidence_exact [of user_id_table Map.empty user_id_report] user_id_table_report s
  show ?thesis by (simp add: user_id_report_def)
qed

text \<open>
  C7 as stated fails: \<^verbatim>\<open>order_id\<close> is a candidate and the evidence has no entry for it; and
  the table with the labels 0 and 1 has no candidate, yet the call raises AttributeError.
\<close>

theorem id_evidence_counterexample:
  "compute_quality_flags order_id_table Map.empty = Inr order_id_report \<and>
   list_all (\<lambda>c. spec_id_candidate (cname c)) order_id_table \<and>
   suspicious_id_columns (metrics order_id_report) = [] \<and>
   compute_quality_flags default_labels_table Map.empty = Inl AttributeError"
  by (simp add: order_id_table_def order_id_report_def default_labels_table_def
      spec_id_candidate_def contains_id_def cqf_eval)

section \<open>Unrecognised keyword arguments\<close>

lemma cqf_restrict:
  "compute_quality_flags df kw
   = compute_quality_flags df (kw |` {''high_cardinality_threshold'', ''zero_threshold''})"
proof -
  let ?r = "kw |` {''high_cardinality_threshold'', ''zero_threshold''}"
  have h: "kwargs_get ?r ''high_cardinality_threshold'' (PInt 100)
           = kwargs_get kw ''high_cardinality_threshold'' (PInt 100)"
    and z: "kwargs_get ?r ''zero_threshold'' (PFloat (Finite (1 / 2)))
            = kwargs_get kw ''zero_threshold'' (PFloat (Finite (1 / 2)))"
    by (simp_all add: kwargs_get_def)
  show ?thesis unfolding compute_quality_flags_def h z by (rule refl)
qed

text \<open>
  C10 (as amended). When neither \<^verbatim>\<open>high_cardinality_threshold\<close> nor \<^verbatim>\<open>zero_threshold\<close> is
  among the keyword arguments, whatever else is, the call ends exactly as the call without
  keyword arguments ends, with the same report or the same error, which is also how the call
  with the defaults 100 and 0.5 ends; added to any other keyword arguments, such names change
  nothing either. The call returns a report exactly when the labels of the table are distinct
  strs; it raises ValueError when two columns have the same label and AttributeError when
  the labels are distinct and one is not a str.
\<close>

theorem unrecognized_kwargs_ignored:
  assumes "kw ''high_cardinality_threshold'' = None" "kw ''zero_threshold'' = None"
  shows "compute_quality_flags df kw = compute_quality_flags df Map.empty \<and>
         compute_quality_flags df (kw ++ extra)
           = compute_quality_flags df
               (extra |` {''high_cardinality_threshold'', ''zero_threshold''}) \<and>
         compute_quality_flags df kw
           = compute_quality_flags df [''high_cardinality_threshold'' \<mapsto> PInt 100,
                                       ''zero_threshold'' \<mapsto> PFloat (Finite (1 / 2))] \<and>
         ((\<exists>r. compute_quality_flags df kw = Inr r) \<longleftrightarrow>
            distinct (map cname df) \<and> str_labels df) \<and>
         (\<not> distinct (map cname df) \<longrightarrow> compute_quality_flags df kw = Inl ValueError) \<and>
         (distinct (map cname df) \<and> \<not> str_labels df \<longrightarrow>
            compute_quality_flags df kw = Inl AttributeError)"
proof -
  let ?d = "[''high_cardinality_threshold'' \<mapsto> PInt 100,
             ''zero_threshold'' \<mapsto> PFloat (Finite (1 / 2))]"
  have h: "kwargs_get kw ''high_cardinality_threshold'' (PInt 100) = PInt 100"
    and z: "kwargs_get kw ''zero_threshold'' (PFloat (Finite (1 / 2))) = PFloat (Finite (1 / 2))"
    by (simp_all add: kwargs_get_def assms)
  have h0: "kwargs_get Map.empty ''high_cardinality_threshold'' (PInt 100) = PInt 100"
    and z0: "kwargs_get Map.empty ''zero_threshold'' (PFloat (Finite (1 / 2)))
             = PFloat (Finite (1 / 2))"
    by (simp_all add: kwargs_get_def)
  have h1: "kwargs_get ?d ''high_cardinality_threshold'' (PInt 100) = PInt 100"
    and z1: "kwargs_get ?d ''zero_threshold'' (PFloat (Finite (1 / 2))) = PFloat (Finite (1 / 2))"
    by (simp_all add: kwargs_get_def)
  have 1: "compute_quality_flags df kw = compute_quality_flags df Map.empty"
    unfolding compute_quality_flags_def h z h0 z0 by (rule refl)
  have 2: "compute_quality_flags df kw = compute_quality_flags df ?d"
    unfolding compute_quality_flags_def h z h1 z1 by (rule refl)
  have "(kw ++ extra) |` {''high_cardinality_threshold'', ''zero_threshold''}
        = extra |` {''high_cardinality_threshold'', ''zero_threshold''}"
    by (rule ext) (auto simp: restrict_map_def map_add_def assms split: option.splits)
  with cqf_restrict [of df "kw ++ extra"]
  have 4: "compute_quality_flags df (kw ++ extra)
           = compute_quality_flags df
               (extra |` {''high_cardinality_threshold'', ''zero_threshold''})"
    by simp
  have f: "failure_of df kw =
             (if \<not> distinct (map cname df) then Some ValueError
              else if \<not> str_labels df then Some AttributeError else None)"
    by (simp add: failure_of_def h z is_number_def)
  from cqf_outcome [of df kw]
  have 5: "(\<exists>r. compute_quality_flags df kw = Inr r) \<longleftrightarrow>
             distinct (map cname df) \<and> str_labels df"
    and 6: "\<not> distinct (map cname df) \<longrightarrow> compute_quality_flags df kw = Inl ValueError"
    and 7: "distinct (map cname df) \<and> \<not> str_labels df \<longrightarrow>
             compute_quality_flags df kw = Inl AttributeError"
    unfolding f by (auto split: if_splits)
  from 1 2 4 5 6 7 show ?thesis by blast
qed

theorem unrecognized_kwargs_ignored_witness:
  "[''max_cardinality_threshold'' \<mapsto> PInt 10] ''high_cardinality_threshold'' = None \<and>
   [''max_cardinality_threshold'' \<mapsto> PInt 10] ''zero_threshold'' = None \<and>
   compute_quality_flags cat_table [''max_cardinality_threshold'' \<mapsto> PInt 10]
     = compute_quality_flags cat_table Map.empty \<and>
   compute_quality_flags cat_table Map.empty = Inr cat_report"
proof -
  have a: "[''max_cardinality_threshold'' \<mapsto> PInt 10] ''high_cardinality_threshold'' = None"
    by simp
  have b: "[''max_cardinality_threshold'' \<mapsto> PInt 10] ''zero_threshold'' = None"
    by simp
  from unrecognized_kwargs_ignored [OF a b, of cat_table Map.empty] a b cat_table_report
  show ?thesis by blast
qed

text \<open>
  C10 as stated fails: the call with \<^verbatim>\<open>max_cardinality_threshold=50\<close> raises
  AttributeError on the table with the labels 0 and 1, and ValueError on the table with two
  columns \<^verbatim>\<open>a\<close>.
\<close>

theorem unrecognized_kwargs_counterexample:
  "compute_quality_flags default_labels_table [''max_cardinality_threshold'' \<mapsto> PInt 50]
   = Inl AttributeError \<and>
   compute_quality_flags repeated_labels_table [''max_cardinality_threshold'' \<mapsto> PInt 50]
   = Inl ValueError"
  by (simp add: default_labels_table_def repeated_labels_table_def cqf_eval)

section \<open>The table is only read\<close>

lemmas st_defs =
  st_isnull_sum_def st_len_def st_column_labels_def st_duplicated_sum_def
  st_constant_columns_def st_id_columns_def st_select_dtypes_def st_suspicious_id_cols_def
  st_penalty_def

lemma compute_quality_flags_st_eq:
  "compute_quality_flags_st kw df = (compute_quality_flags df kw, df)"
  unfolding compute_quality_flags_st_def compute_quality_flags_def st_defs Let_def
  by (simp add: o_def split: sum.splits)

text \<open>
  C9. For every table and configuration, the table after the call is the table before the call,
  whether the call returns a report or fails.
\<close>

theorem table_unchanged: "snd (compute_quality_flags_st kw df) = df"
  by (simp add: compute_quality_flags_st_eq)

theorem table_unchanged_witness:
  "snd (compute_quality_flags_st Map.empty sample_table) = sample_table"
  by (rule table_unchanged)

end
